theory Spec2Isabelle
  imports Main
begin

section \<open>JavaScript values used by the orchestrator\<close>

text \<open>
  A value that may be \<^verbatim>\<open>undefined\<close> or \<^verbatim>\<open>null\<close> in the source is an option
  (\<open>None\<close> for both). Strings are byte lists. Timestamps (\<^verbatim>\<open>Date.now()\<close>,
  \<^verbatim>\<open>new Date()\<close>) are integers, in milliseconds; the ISO text that
  \<^verbatim>\<open>toISOString()\<close> makes of them is not modelled.
\<close>

definition truthy :: "string option \<Rightarrow> bool" where
  \<comment> \<open>a string-or-undefined value used as a condition: the empty string is falsy\<close>
  "truthy v = (case v of None \<Rightarrow> False | Some s \<Rightarrow> s \<noteq> [])"

definition js_or :: "string option \<Rightarrow> string \<Rightarrow> string" where
  \<comment> \<open>\<^verbatim>\<open>v || d\<close> with a string default\<close>
  "js_or v d = (case v of None \<Rightarrow> d | Some s \<Rightarrow> if s = [] then d else s)"

fun findIndex :: "('a \<Rightarrow> bool) \<Rightarrow> 'a list \<Rightarrow> nat option" where
  "findIndex P [] = None"
| "findIndex P (x # xs) =
     (if P x then Some 0 else map_option Suc (findIndex P xs))"

section \<open>Instance registry (\<^verbatim>\<open>instanceState\<close>)\<close>

record creator =
  creator_id :: string
  username :: string

record self_destruct_timer =
  expiresAt :: int
  initialDuration :: int
  extendedCount :: nat
  warningsSent :: "string list"

record instance_record =
  rid :: string
  creator :: creator
  createdAt :: int
  status :: "string option"
  ip :: "string option"
  name :: string
  lastUpdated :: int
  selfDestructTimer :: "self_destruct_timer option"

text \<open>
  The \<^verbatim>\<open>metadata\<close> argument of \<^verbatim>\<open>trackInstance\<close>: the function reads its
  \<^verbatim>\<open>ip\<close> and \<^verbatim>\<open>name\<close> only (callers also pass \<^verbatim>\<open>region\<close>, which is never
  stored).
\<close>

record track_metadata =
  md_ip :: "string option"
  md_name :: "string option"

text \<open>
  The \<^verbatim>\<open>metadata\<close> argument of \<^verbatim>\<open>updateInstance\<close> is spread over the record.
  The callers pass \<^verbatim>\<open>{}\<close>, \<^verbatim>\<open>{ip: v}\<close> or \<^verbatim>\<open>{selfDestructTimer: t}\<close>: a key
  that is absent is \<open>None\<close>, a key that is present with value \<open>v\<close> is \<open>Some v\<close>.
\<close>

record update_metadata =
  up_ip :: "string option option"
  up_selfDestructTimer :: "self_destruct_timer option option"

definition no_metadata :: update_metadata where
  "no_metadata = \<lparr>up_ip = None, up_selfDestructTimer = None\<rparr>"

definition timer_metadata :: "self_destruct_timer option \<Rightarrow> update_metadata" where
  "timer_metadata t = \<lparr>up_ip = None, up_selfDestructTimer = Some t\<rparr>"


definition trackInstance ::
  "instance_record list \<Rightarrow> int \<Rightarrow> string \<Rightarrow> string \<Rightarrow> string \<Rightarrow> string option \<Rightarrow>
   track_metadata \<Rightarrow> instance_record \<times> instance_record list" where
  "trackInstance instances timestamp instanceId userId usernm st metadata =
     (let existingIndex = findIndex (\<lambda>i. rid i = instanceId) instances;
          instanceData = \<lparr>
            rid = instanceId,
            creator = \<lparr>creator_id = userId, username = usernm\<rparr>,
            createdAt = timestamp,
            status = Some (js_or st ''creating''),
            ip = (if truthy (md_ip metadata) then md_ip metadata else None),
            name = js_or (md_name metadata) (usernm @ [CHR 0x27] @ ''s Server''),
            lastUpdated = timestamp,
            selfDestructTimer = None\<rparr>
      in case existingIndex of
           Some k \<Rightarrow>
             (instanceData,
              instances[k := instanceData\<lparr>selfDestructTimer := selfDestructTimer (instances ! k)\<rparr>])
         | None \<Rightarrow> (instanceData, instances @ [instanceData]))"

definition updateInstance ::
  "instance_record list \<Rightarrow> int \<Rightarrow> string \<Rightarrow> string option \<Rightarrow> update_metadata \<Rightarrow>
   instance_record option \<times> instance_record list" where
  "updateInstance instances timestamp instanceId st metadata =
     (case findIndex (\<lambda>i. rid i = instanceId) instances of
        Some k \<Rightarrow>
          (let old = instances ! k;
               r1 = old\<lparr>status := st, lastUpdated := timestamp\<rparr>;
               r2 = (case up_ip metadata of None \<Rightarrow> r1 | Some a \<Rightarrow> r1\<lparr>ip := a\<rparr>);
               r3 = (case up_selfDestructTimer metadata of
                       None \<Rightarrow> r2 | Some t \<Rightarrow> r2\<lparr>selfDestructTimer := t\<rparr>)
           in (Some r3, instances[k := r3]))
      | None \<Rightarrow> (None, instances))"

definition getActiveInstances :: "instance_record list \<Rightarrow> instance_record list" where
  "getActiveInstances instances =
     filter (\<lambda>i. status i \<noteq> Some ''terminated'' \<and> status i \<noteq> Some ''destroyed'') instances"

definition instanceState_getInstance :: "instance_record list \<Rightarrow> string \<Rightarrow> instance_record option" where
  "instanceState_getInstance instances instanceId = find (\<lambda>i. rid i = instanceId) instances"

definition getUserInstances :: "instance_record list \<Rightarrow> string \<Rightarrow> instance_record list" where
  "getUserInstances instances userId = filter (\<lambda>i. creator_id (creator i) = userId) instances"

section \<open>Self-destruct timer configuration and initialisation\<close>

text \<open>
  Instants and durations are JavaScript numbers holding whole milliseconds. They are
  modelled as integers, which is what the program computes as long as the values stay
  below \<open>2\<^sup>5\<^sup>3\<close> in magnitude; beyond that a sum of two numbers is rounded.
\<close>

definition minutes_setting :: "int option \<Rightarrow> int" where
  \<comment> \<open>\<^verbatim>\<open>parseInt(process.env.X) || 180\<close>: the argument is what \<^verbatim>\<open>parseInt\<close> gives,
      \<open>None\<close> for \<^verbatim>\<open>NaN\<close> (variable unset or not a number); \<^verbatim>\<open>NaN\<close> and 0 are falsy\<close>
  "minutes_setting parsed = (case parsed of None \<Rightarrow> 180 | Some n \<Rightarrow> if n = 0 then 180 else n)"

definition initializeSelfDestructTimer ::
  "int \<Rightarrow> instance_record list \<Rightarrow> int \<Rightarrow> string \<Rightarrow> instance_record list" where
  "initializeSelfDestructTimer SELF_DESTRUCT_INITIAL_MINUTES instances now instanceId =
     (case instanceState_getInstance instances instanceId of
        None \<Rightarrow> instances
      | Some trackedInstance \<Rightarrow>
          (case selfDestructTimer trackedInstance of
             Some t \<Rightarrow> instances
           | None \<Rightarrow>
               snd (updateInstance instances now instanceId (status trackedInstance)
                 (timer_metadata (Some \<lparr>
                    expiresAt = now + SELF_DESTRUCT_INITIAL_MINUTES * 60 * 1000,
                    initialDuration = SELF_DESTRUCT_INITIAL_MINUTES * 60 * 1000,
                    extendedCount = 0,
                    warningsSent = []\<rparr>)))))"

section \<open>Timer extension ("insert coin")\<close>

text \<open>
  The select-menu handler \<^verbatim>\<open>insert_coin_server\<close> and the \<^verbatim>\<open>coin_\<close> button handler.
  Both look the record up, answer "This server does not have an active timer" when the
  record or its timer is missing (\<open>NoActiveTimer\<close>), and otherwise update the timer object
  and store it with \<^verbatim>\<open>updateInstance\<close>. The value returned on success is
  \<^verbatim>\<open>newExpiresAt\<close>; the second component is the registry afterwards.
\<close>

datatype handler_error = NoActiveTimer

definition insert_coin_server ::
  "int \<Rightarrow> instance_record list \<Rightarrow> int \<Rightarrow> string \<Rightarrow>
   (handler_error + int) \<times> instance_record list" where
  "insert_coin_server SELF_DESTRUCT_COIN_MINUTES instances now coinInstanceId =
     (case instanceState_getInstance instances coinInstanceId of
        None \<Rightarrow> (Inl NoActiveTimer, instances)
      | Some trackedInstance \<Rightarrow>
          (case selfDestructTimer trackedInstance of
             None \<Rightarrow> (Inl NoActiveTimer, instances)
           | Some timer \<Rightarrow>
               (let newExpiresAt = expiresAt timer + SELF_DESTRUCT_COIN_MINUTES * 60 * 1000;
                    timer1 = timer\<lparr>expiresAt := newExpiresAt\<rparr>;
                    timer2 = timer1\<lparr>extendedCount := extendedCount timer1 + 1\<rparr>
                in (Inr newExpiresAt,
                    snd (updateInstance instances now coinInstanceId (status trackedInstance)
                           (timer_metadata (Some timer2)))))))"

definition coin_button ::
  "int \<Rightarrow> instance_record list \<Rightarrow> int \<Rightarrow> string \<Rightarrow>
   (handler_error + int) \<times> instance_record list" where
  "coin_button SELF_DESTRUCT_COIN_MINUTES instances now coinInstanceId =
     (case instanceState_getInstance instances coinInstanceId of
        None \<Rightarrow> (Inl NoActiveTimer, instances)
      | Some trackedInstance \<Rightarrow>
          (case selfDestructTimer trackedInstance of
             None \<Rightarrow> (Inl NoActiveTimer, instances)
           | Some timer \<Rightarrow>
               (let newExpiresAt = expiresAt timer + SELF_DESTRUCT_COIN_MINUTES * 60 * 1000;
                    timer1 = timer\<lparr>expiresAt := newExpiresAt\<rparr>;
                    timer2 = timer1\<lparr>extendedCount := extendedCount timer1 + 1\<rparr>
                in (Inr newExpiresAt,
                    snd (updateInstance instances now coinInstanceId (status trackedInstance)
                           (timer_metadata (Some timer2)))))))"

section \<open>The outside world: provider, metadata service, chat front-end, clock\<close>

text \<open>
  The Vultr SDK, the metadata service, Discord and the system clock are collaborators of
  the program. They are a parameter of the model: a state of type \<open>'w\<close> and one
  transition for each operation the program performs on it. A rejected promise is an
  \<open>Inl\<close> with the error object, of which the program reads \<^verbatim>\<open>message\<close>,
  \<^verbatim>\<open>response?.status\<close> and, after a failed creation, \<^verbatim>\<open>response?.data\<close>.
  \<^item> \<open>clock\<close> is \<^verbatim>\<open>Date.now()\<close>; \<open>timer_elapses d\<close> is the world after a
    \<^verbatim>\<open>setTimeout\<close> of \<open>d\<close> milliseconds has fired.
  \<^item> \<open>vultr_getInstance\<close> and \<open>vultr_listInstances\<close> resolve to the
    \<^verbatim>\<open>instance\<close> and \<^verbatim>\<open>instances\<close> fields of the response object, \<open>None\<close> when the
    field is missing. \<open>vultr_updateInstance\<close> is the call that sets
    \<^verbatim>\<open>firewall_group_id\<close>, \<open>vultr_enableDdos\<close> the one that sets
    \<^verbatim>\<open>ddos_protection\<close>.
  \<^item> \<open>metadata_instanceid\<close> is the request to the metadata service: the text of the
    answer when it is \<^verbatim>\<open>ok\<close>, \<open>None\<close> when it is not or when the request fails.
  \<^item> \<open>direct_createInstance\<close> is the diagnostic \<^verbatim>\<open>fetch\<close> after an empty answer to
    a creation.
  \<^item> \<open>interaction_followUp\<close> posts a message to the channel; \<open>users_fetch\<close> resolves
    to whether the user was found; \<open>user_send\<close> sends a direct message.
  The texts of the messages are not modelled, only their kind (\<open>notice\<close>).
\<close>

record js_error =
  message :: string
  response_status :: "nat option"
  response_data_error :: "string option"
  response_data_message :: "string option"

definition new_Error :: "string \<Rightarrow> js_error" where
  \<comment> \<open>\<^verbatim>\<open>new Error(m)\<close>: an error without \<^verbatim>\<open>response\<close>\<close>
  "new_Error m = \<lparr>message = m, response_status = None, response_data_error = None,
     response_data_message = None\<rparr>"

record vultr_instance =
  v_id :: string
  v_label :: "string option"
  v_status :: "string option"
  v_power_status :: "string option"
  v_main_ip :: "string option"
  v_snapshot_id :: "string option"
  v_firewall_group_id :: "string option"

record snapshot =
  snap_id :: string
  description :: "string option"
  date_created :: int

text \<open>
  What \<^verbatim>\<open>createInstance\<close> resolves to: nothing or an object without keys, an object
  without \<^verbatim>\<open>instance\<close>, or an object with it. The strings are the texts that
  \<^verbatim>\<open>JSON.stringify\<close> gives for the response, or for its instance.
\<close>

datatype create_response =
    EmptyResponse | ResponseWithoutInstance string | ResponseWithInstance vultr_instance string

record direct_response =
  d_ok :: bool
  d_status :: nat
  d_text :: string

datatype notice =
    polling_timeout | not_available | server_ready | creation_dm
  | restoration_progress | creation_progress | monitor_error
  | destroyed_notice | destroying_progress | destruction_timeout
  | self_destruct_warning nat | self_destructed

datatype event =
    GetInstance string | ListInstances | DeleteInstance string
  | StartInstance string | HaltInstance string | RebootInstance string
  | UpdateInstance string string | EnableDdos string
  | CreateInstance string string string string
  | ListSnapshots | DirectCreate | MetadataRequest
  | FollowUp notice | UsersFetch string | UserSend string notice
  | Wait nat | SchedulePanelUpdate nat

record 'w environment =
  clock :: "'w \<Rightarrow> int"
  timer_elapses :: "nat \<Rightarrow> 'w \<Rightarrow> 'w"
  vultr_getInstance :: "string \<Rightarrow> 'w \<Rightarrow> (js_error + vultr_instance option) \<times> 'w"
  vultr_listInstances :: "'w \<Rightarrow> (js_error + vultr_instance list option) \<times> 'w"
  vultr_deleteInstance :: "string \<Rightarrow> 'w \<Rightarrow> (js_error + unit) \<times> 'w"
  vultr_updateInstance :: "string \<Rightarrow> string \<Rightarrow> 'w \<Rightarrow> (js_error + unit) \<times> 'w"
  vultr_enableDdos :: "string \<Rightarrow> 'w \<Rightarrow> (js_error + unit) \<times> 'w"
  vultr_createInstance ::
    "string \<Rightarrow> string \<Rightarrow> string \<Rightarrow> string \<Rightarrow> 'w \<Rightarrow> (js_error + create_response) \<times> 'w"
  vultr_listSnapshots :: "'w \<Rightarrow> (js_error + snapshot list option) \<times> 'w"
  direct_createInstance :: "'w \<Rightarrow> (js_error + direct_response) \<times> 'w"
  metadata_instanceid :: "'w \<Rightarrow> string option \<times> 'w"
  interaction_followUp :: "notice \<Rightarrow> 'w \<Rightarrow> (js_error + unit) \<times> 'w"
  users_fetch :: "string \<Rightarrow> 'w \<Rightarrow> (js_error + bool) \<times> 'w"
  user_send :: "string \<Rightarrow> notice \<Rightarrow> 'w \<Rightarrow> (js_error + unit) \<times> 'w"

record config =
  EXCLUDE_INSTANCE_ID :: "string option"
  EXCLUDE_SNAPSHOT_ID :: "string option"
  SELF_DESTRUCT_INITIAL_MINUTES :: int
  VULTR_FIREWALL_GROUP_ID :: "string option"
  VULTR_REGION :: "string option"
  VULTR_PLAN :: "string option"

text \<open>
  The program's own state: the registry, the cached id of the server the bot runs on,
  and, for the statements below, the list of operations performed on the world so far.
\<close>

record 'w sys =
  world :: 'w
  trace :: "event list"
  instanceState :: "instance_record list"
  currentServerInstanceId :: "string option"

definition perform :: "event \<Rightarrow> ('w \<Rightarrow> 'a \<times> 'w) \<Rightarrow> 'w sys \<Rightarrow> 'a \<times> 'w sys" where
  "perform ev f s =
     (case f (world s) of (r, w) \<Rightarrow> (r, s\<lparr>world := w, trace := trace s @ [ev]\<rparr>))"

definition new_events :: "'w sys \<Rightarrow> 'w sys \<Rightarrow> event list" where
  \<comment> \<open>the operations performed between an earlier state and a later one\<close>
  "new_events s s' = drop (length (trace s)) (trace s')"

fun is_delete :: "event \<Rightarrow> bool" where
  "is_delete (DeleteInstance i) = True"
| "is_delete e = False"

fun is_update :: "event \<Rightarrow> bool" where
  "is_update (UpdateInstance i g) = True"
| "is_update e = False"

definition sleep :: "'w environment \<Rightarrow> nat \<Rightarrow> 'w sys \<Rightarrow> 'w sys" where
  "sleep env d s = s\<lparr>world := timer_elapses env d (world s), trace := trace s @ [Wait d]\<rparr>"

definition type_error :: js_error where
  \<comment> \<open>reading a property of \<^verbatim>\<open>undefined\<close>\<close>
  "type_error = new_Error ''Cannot read properties of undefined''"

section \<open>Self-protection at the provider-access layer\<close>

text \<open>
  Strings are the UTF-8 bytes of the text. \<^verbatim>\<open>String.prototype.trim\<close> removes the white
  space and line terminator code points from both ends: U+0009 to U+000D, U+0020, U+00A0,
  U+1680, U+2000 to U+200A, U+2028, U+2029, U+202F, U+205F, U+3000 and U+FEFF.
\<close>

definition white_space :: "string list" where
  "white_space =
     [[CHR 0x09], [CHR 0x0A], [CHR 0x0B], [CHR 0x0C], [CHR 0x0D], [CHR 0x20],
      [CHR 0xC2, CHR 0xA0], [CHR 0xE1, CHR 0x9A, CHR 0x80],
      [CHR 0xE2, CHR 0x80, CHR 0x80], [CHR 0xE2, CHR 0x80, CHR 0x81],
      [CHR 0xE2, CHR 0x80, CHR 0x82], [CHR 0xE2, CHR 0x80, CHR 0x83],
      [CHR 0xE2, CHR 0x80, CHR 0x84], [CHR 0xE2, CHR 0x80, CHR 0x85],
      [CHR 0xE2, CHR 0x80, CHR 0x86], [CHR 0xE2, CHR 0x80, CHR 0x87],
      [CHR 0xE2, CHR 0x80, CHR 0x88], [CHR 0xE2, CHR 0x80, CHR 0x89],
      [CHR 0xE2, CHR 0x80, CHR 0x8A], [CHR 0xE2, CHR 0x80, CHR 0xA8],
      [CHR 0xE2, CHR 0x80, CHR 0xA9], [CHR 0xE2, CHR 0x80, CHR 0xAF],
      [CHR 0xE2, CHR 0x81, CHR 0x9F], [CHR 0xE3, CHR 0x80, CHR 0x80],
      [CHR 0xEF, CHR 0xBB, CHR 0xBF]]"

fun strip :: "string list \<Rightarrow> nat \<Rightarrow> string \<Rightarrow> string" where
  \<comment> \<open>removes leading members of \<open>ws\<close>, at most \<open>n\<close> of them\<close>
  "strip ws 0 t = t"
| "strip ws (Suc n) t =
     (case find (\<lambda>w. take (length w) t = w) ws of
        None \<Rightarrow> t
      | Some w \<Rightarrow> strip ws n (drop (length w) t))"

definition trim :: "string \<Rightarrow> string" where
  \<comment> \<open>every removal takes at least one byte, so \<open>length t\<close> removals are enough\<close>
  "trim t = rev (strip (map rev white_space) (length t) (rev (strip white_space (length t) t)))"

definition getCurrentServerInstanceId ::
  "'w environment \<Rightarrow> config \<Rightarrow> 'w sys \<Rightarrow> string option \<times> 'w sys" where
  "getCurrentServerInstanceId env cfg s =
     (case perform MetadataRequest (metadata_instanceid env) s of
        (Some instanceId, s1) \<Rightarrow> (Some (trim instanceId), s1)
      | (None, s1) \<Rightarrow>
          (if truthy (EXCLUDE_INSTANCE_ID cfg) then EXCLUDE_INSTANCE_ID cfg else None, s1))"

definition isCurrentServer ::
  "'w environment \<Rightarrow> config \<Rightarrow> string \<Rightarrow> 'w sys \<Rightarrow> bool \<times> 'w sys" where
  "isCurrentServer env cfg instanceId s =
     (let s1 = (if \<not> truthy (currentServerInstanceId s)
                then (case getCurrentServerInstanceId env cfg s of
                        (r, s') \<Rightarrow> s'\<lparr>currentServerInstanceId := r\<rparr>)
                else s)
      in if currentServerInstanceId s1 = Some instanceId then (True, s1)
         else if EXCLUDE_INSTANCE_ID cfg = Some instanceId then (True, s1)
         else (False, s1))"

definition auto_detected :: "'w environment \<Rightarrow> config \<Rightarrow> 'w sys \<Rightarrow> string option" where
  \<comment> \<open>the id \<^verbatim>\<open>isCurrentServer\<close> compares with when it is called in state \<open>s\<close>: the cached
      one, or else the one \<^verbatim>\<open>getCurrentServerInstanceId\<close> detects then\<close>
  "auto_detected env cfg s =
     (if truthy (currentServerInstanceId s) then currentServerInstanceId s
      else fst (getCurrentServerInstanceId env cfg s))"

definition getInstance ::
  "'w environment \<Rightarrow> config \<Rightarrow> string \<Rightarrow> 'w sys \<Rightarrow>
   (js_error + vultr_instance option) \<times> 'w sys" where
  "getInstance env cfg instanceId s =
     (case perform (GetInstance instanceId) (vultr_getInstance env instanceId) s of
        (Inl error, s1) \<Rightarrow> (Inl error, s1)
      | (Inr instance, s1) \<Rightarrow>
          (case isCurrentServer env cfg instanceId s1 of
             (isCurrent, s2) \<Rightarrow>
               if isCurrent then
                 (case instance of None \<Rightarrow> (Inl type_error, s2) | Some i \<Rightarrow> (Inr None, s2))
               else if truthy (EXCLUDE_SNAPSHOT_ID cfg) then
                 (case instance of
                    None \<Rightarrow> (Inl type_error, s2)
                  | Some i \<Rightarrow>
                      if v_snapshot_id i = EXCLUDE_SNAPSHOT_ID cfg then (Inr None, s2)
                      else (Inr instance, s2))
               else (Inr instance, s2)))"

fun filter_current ::
  "'w environment \<Rightarrow> config \<Rightarrow> vultr_instance list \<Rightarrow> 'w sys \<Rightarrow>
   vultr_instance list \<times> 'w sys" where
  "filter_current env cfg [] s = ([], s)"
| "filter_current env cfg (instance # rest) s =
     (case isCurrentServer env cfg (v_id instance) s of
        (isCurrent, s1) \<Rightarrow>
          (case filter_current env cfg rest s1 of
             (filteredInstances, s2) \<Rightarrow>
               (if \<not> isCurrent then instance # filteredInstances else filteredInstances, s2)))"

definition listInstances ::
  "'w environment \<Rightarrow> config \<Rightarrow> 'w sys \<Rightarrow> (js_error + vultr_instance list) \<times> 'w sys" where
  "listInstances env cfg s =
     (case perform ListInstances (vultr_listInstances env) s of
        (Inl error, s1) \<Rightarrow> (Inl error, s1)
      | (Inr response, s1) \<Rightarrow>
          (case filter_current env cfg (case response of None \<Rightarrow> [] | Some l \<Rightarrow> l) s1 of
             (instances, s2) \<Rightarrow>
               if truthy (EXCLUDE_SNAPSHOT_ID cfg) then
                 (Inr (filter (\<lambda>instance. v_snapshot_id instance \<noteq> EXCLUDE_SNAPSHOT_ID cfg)
                         instances), s2)
               else (Inr instances, s2)))"

section \<open>Notifications\<close>



definition sendSelfDestructWarning ::
  "'w environment \<Rightarrow> string \<Rightarrow> nat \<Rightarrow> string \<Rightarrow> 'w sys \<Rightarrow> 'w sys" where
  "sendSelfDestructWarning env instanceId minutesRemaining creatorId s =
     (case perform (UsersFetch creatorId) (users_fetch env creatorId) s of
        (Inl error, s1) \<Rightarrow> s1
      | (Inr found, s1) \<Rightarrow>
          if \<not> found then s1
          else (case instanceState_getInstance (instanceState s1) instanceId of
                  None \<Rightarrow> s1
                | Some trackedInstance \<Rightarrow>
                    (case selfDestructTimer trackedInstance of
                       None \<Rightarrow> s1
                     | Some t \<Rightarrow>
                         snd (perform (UserSend creatorId (self_destruct_warning minutesRemaining))
                                (user_send env creatorId (self_destruct_warning minutesRemaining)) s1))))"

section \<open>Status reconciliation poller (\<^verbatim>\<open>startInstanceStatusPolling\<close>)\<close>




section \<open>Destruction reconciliation poller (\<^verbatim>\<open>startInstanceDestructionPolling\<close>)\<close>

definition mark_destroyed :: "'w environment \<Rightarrow> string \<Rightarrow> 'w sys \<Rightarrow> 'w sys" where
  \<comment> \<open>\<^verbatim>\<open>instanceState.updateInstance(id, 'destroyed', { selfDestructTimer: null })\<close>\<close>
  "mark_destroyed env instanceId s =
     s\<lparr>instanceState :=
         snd (updateInstance (instanceState s) (clock env (world s)) instanceId
                (Some ''destroyed'') (timer_metadata None))\<rparr>"





section \<open>Self-destruct timer engine (\<^verbatim>\<open>startSelfDestructPolling\<close>)\<close>

definition send_self_destructed_dm :: "'w environment \<Rightarrow> string \<Rightarrow> 'w sys \<Rightarrow> 'w sys" where
  \<comment> \<open>the \<^verbatim>\<open>try\<close> around \<^verbatim>\<open>client.users.fetch\<close> and \<^verbatim>\<open>user.send\<close>\<close>
  "send_self_destructed_dm env creatorId s =
     (case perform (UsersFetch creatorId) (users_fetch env creatorId) s of
        (Inl dmError, s1) \<Rightarrow> s1
      | (Inr found, s1) \<Rightarrow>
          if found
          then snd (perform (UserSend creatorId self_destructed)
                      (user_send env creatorId self_destructed) s1)
          else s1)"

text \<open>The body of the \<^verbatim>\<open>for\<close> loop of \<^verbatim>\<open>checkTimers\<close>, for one record of the snapshot.\<close>

definition checkTimers_instance ::
  "'w environment \<Rightarrow> config \<Rightarrow> instance_record \<Rightarrow> 'w sys \<Rightarrow> 'w sys" where
  "checkTimers_instance env cfg trackedInstance s =
     (case selfDestructTimer trackedInstance of
        None \<Rightarrow> s
      | Some timer \<Rightarrow>
          (let remainingMs = expiresAt timer - clock env (world s);
               remainingMinutes = remainingMs div 60000
           in if remainingMs \<le> 0 then
                (case getInstance env cfg (rid trackedInstance) s of
                   (Inl destroyError, s1) \<Rightarrow> s1
                 | (Inr None, s1) \<Rightarrow> mark_destroyed env (rid trackedInstance) s1
                 | (Inr (Some vultrInstance), s1) \<Rightarrow>
                     (case perform (DeleteInstance (rid trackedInstance))
                             (vultr_deleteInstance env (rid trackedInstance)) s1 of
                        (Inl destroyError, s2) \<Rightarrow> s2
                      | (Inr u, s2) \<Rightarrow>
                          (let s3 = mark_destroyed env (rid trackedInstance) s2;
                               s4 = send_self_destructed_dm env (creator_id (creator trackedInstance)) s3
                           in s4\<lparr>trace := trace s4 @ [SchedulePanelUpdate 2000]\<rparr>)))
              else if remainingMinutes \<le> 10 \<and> remainingMinutes > 5 \<and>
                      ''10min'' \<notin> set (warningsSent timer) then
                (let s1 = sendSelfDestructWarning env (rid trackedInstance) 10
                            (creator_id (creator trackedInstance)) s
                 in s1\<lparr>instanceState :=
                        snd (updateInstance (instanceState s1) (clock env (world s1))
                               (rid trackedInstance) (status trackedInstance)
                               (timer_metadata
                                  (Some (timer\<lparr>warningsSent := warningsSent timer @ [''10min'']\<rparr>))))\<rparr>)
              else if remainingMinutes \<le> 5 \<and> ''5min'' \<notin> set (warningsSent timer) then
                (let s1 = sendSelfDestructWarning env (rid trackedInstance) 5
                            (creator_id (creator trackedInstance)) s
                 in s1\<lparr>instanceState :=
                        snd (updateInstance (instanceState s1) (clock env (world s1))
                               (rid trackedInstance) (status trackedInstance)
                               (timer_metadata
                                  (Some (timer\<lparr>warningsSent := warningsSent timer @ [''5min'']\<rparr>))))\<rparr>)
              else s))"

definition checkTimers :: "'w environment \<Rightarrow> config \<Rightarrow> 'w sys \<Rightarrow> 'w sys" where
  "checkTimers env cfg s =
     fold (checkTimers_instance env cfg) (getActiveInstances (instanceState s)) s"

section \<open>Provisioning pipeline (\<^verbatim>\<open>createInstanceFromSnapshot\<close>)\<close>

definition is_hex_digit :: "char \<Rightarrow> bool" where
  "is_hex_digit c = (c \<in> set ''0123456789abcdefABCDEF'')"

definition uuidRegex_test :: "string \<Rightarrow> bool" where
  \<comment> \<open>\<^verbatim>\<open>/^[0-9a-f]{8}-[0-9a-f]{4}-[0-9a-f]{4}-[0-9a-f]{4}-[0-9a-f]{12}$/i\<close>\<close>
  "uuidRegex_test t =
     (length t = 36 \<and>
      list_all (\<lambda>k. if k \<in> {8, 13, 18, 23} then t ! k = CHR ''-'' else is_hex_digit (t ! k))
        [0..<36])"

fun str_includes :: "string \<Rightarrow> string \<Rightarrow> bool" where
  \<comment> \<open>\<^verbatim>\<open>haystack.includes(needle)\<close>\<close>
  "str_includes [] needle = (needle = [])"
| "str_includes (c # cs) needle = (take (length needle) (c # cs) = needle \<or> str_includes cs needle)"

fun join :: "string \<Rightarrow> string list \<Rightarrow> string" where
  "join sep [] = []"
| "join sep [x] = x"
| "join sep (x # y # ys) = x @ sep @ join sep (y # ys)"

definition digit_char :: "nat \<Rightarrow> char" where
  "digit_char d = ''0123456789'' ! d"

fun show_nat :: "nat \<Rightarrow> string" where
  "show_nat n = (if n < 10 then [digit_char n] else show_nat (n div 10) @ [digit_char (n mod 10)])"

definition quoted :: "string \<Rightarrow> string" where
  "quoted t = [CHR 0x22] @ t @ [CHR 0x22]"

definition maxRetries :: nat where
  "maxRetries = 10"

definition getSnapshots :: "'w environment \<Rightarrow> 'w sys \<Rightarrow> (js_error + snapshot list) \<times> 'w sys" where
  "getSnapshots env s =
     (case perform ListSnapshots (vultr_listSnapshots env) s of
        (Inl error, s1) \<Rightarrow> (Inl error, s1)
      | (Inr response, s1) \<Rightarrow>
          (Inr (sort_key (\<lambda>a. - date_created a) (case response of None \<Rightarrow> [] | Some l \<Rightarrow> l)), s1))"

definition create_api_error :: "string \<Rightarrow> string \<Rightarrow> js_error \<Rightarrow> js_error" where
  \<comment> \<open>the \<^verbatim>\<open>catch (apiError)\<close> around \<^verbatim>\<open>vultr.instances.createInstance\<close>\<close>
  "create_api_error snapshotId region apiError =
     (let errorMsg = js_or (response_data_error apiError)
                       (js_or (response_data_message apiError)
                          (js_or (Some (message apiError)) ''Unknown error''))
      in if response_status apiError = Some 400 then
           new_Error (''Vultr API validation error (400): '' @ errorMsg @
             ''. Check: 1) Snapshot ID exists, 2) Plan is available in region, 3) Region is valid'')
         else if response_status apiError = Some 401 then
           new_Error (''Vultr API authentication failed (401). '' @
             ''Check your VULTR_API_KEY is correct and has proper permissions.'')
         else if response_status apiError = Some 403 then
           new_Error (''Vultr API access denied (403). Check: 1) API key has '' @
             quoted ''Instances'' @ '' permission, 2) Server IP is in allowed IP list'')
         else if response_status apiError = Some 404 then
           new_Error (''Vultr API resource not found (404): '' @ errorMsg @
             ''. Check: 1) Snapshot ID '' @ quoted snapshotId @ '' exists, 2) Region '' @
             quoted region @ '' is valid'')
         else
           new_Error (''Vultr API error ('' @
             (case response_status apiError of
                None \<Rightarrow> ''unknown''
              | Some n \<Rightarrow> if n = 0 then ''unknown'' else show_nat n) @
             ''): '' @ errorMsg))"

definition diagnose_empty_response :: "'w environment \<Rightarrow> 'w sys \<Rightarrow> js_error \<times> 'w sys" where
  \<comment> \<open>the direct HTTP call after an empty response; every path ends in a \<^verbatim>\<open>throw\<close>\<close>
  "diagnose_empty_response env s =
     (case perform DirectCreate (direct_createInstance env) s of
        (Inl directError, s1) \<Rightarrow>
          (new_Error (''Vultr API returned empty response. Direct API call also failed: '' @
             message directError), s1)
      | (Inr directResponse, s1) \<Rightarrow>
          if \<not> d_ok directResponse then
            (new_Error (''Vultr API returned empty response. Direct API call also failed: '' @
               (''Direct API call failed ('' @ show_nat (d_status directResponse) @ ''): '' @
                d_text directResponse)), s1)
          else
            (new_Error (''Vultr API returned empty response. '' @
               ''Check API key permissions and snapshot/plan validity.''), s1))"

text \<open>
  Lines 964 to 1091 of the source: the checks, the creation, and the checks of the
  response. The result is the firewall group id and the created instance.
\<close>

definition create_phase ::
  "'w environment \<Rightarrow> config \<Rightarrow> string \<Rightarrow> string \<Rightarrow> string option \<Rightarrow> 'w sys \<Rightarrow>
   (js_error + string \<times> vultr_instance) \<times> 'w sys" where
  "create_phase env cfg snapshotId label region s =
     (case VULTR_FIREWALL_GROUP_ID cfg of
        None \<Rightarrow>
          (Inl (new_Error (''VULTR_FIREWALL_GROUP_ID is required but not set in environment '' @
             ''variables. Firewall is mandatory.'')), s)
      | Some firewallGroupId \<Rightarrow>
          if firewallGroupId = [] then
            (Inl (new_Error (''VULTR_FIREWALL_GROUP_ID is required but not set in environment '' @
               ''variables. Firewall is mandatory.'')), s)
          else if \<not> uuidRegex_test firewallGroupId then
            (Inl (new_Error (''Invalid firewall_group_id format: '' @ quoted firewallGroupId @
               ''. Expected UUID format (e.g., '' @
               quoted ''1c4c6504-5094-4de1-a0bc-f7e885580921'' @ '')'')), s)
          else if snapshotId = [] \<or> \<not> uuidRegex_test snapshotId then
            (Inl (new_Error (''Invalid snapshot_id format: '' @ quoted snapshotId @
               ''. Expected UUID format.'')), s)
          else
            (case getSnapshots env s of
               (Inl error, s1) \<Rightarrow> (Inl error, s1)
             | (Inr snapshots, s1) \<Rightarrow>
                 if \<not> list_ex (\<lambda>snap. snap_id snap = snapshotId) snapshots then
                   (let availableSnapshots =
                          join '', '' (map (\<lambda>a. snap_id a @ '' ('' @
                                               js_or (description a) ''Unnamed'' @ '')'') snapshots)
                    in (Inl (new_Error (''Snapshot '' @ snapshotId @
                          '' not found. Available snapshots: '' @
                          js_or (Some availableSnapshots) ''none'')), s1))
                 else
                   (let rgn = js_or region (js_or (VULTR_REGION cfg) ''dfw'');
                        plan = js_or (VULTR_PLAN cfg) ''vc2-1c-1gb''
                    in case perform (CreateInstance snapshotId label rgn plan)
                              (vultr_createInstance env snapshotId label rgn plan) s1 of
                         (Inl apiError, s2) \<Rightarrow> (Inl (create_api_error snapshotId rgn apiError), s2)
                       | (Inr EmptyResponse, s2) \<Rightarrow>
                           (case diagnose_empty_response env s2 of (e, s3) \<Rightarrow> (Inl e, s3))
                       | (Inr (ResponseWithoutInstance json), s2) \<Rightarrow>
                           (Inl (new_Error (''Invalid API response: expected response.instance '' @
                              ''but got: '' @ json)), s2)
                       | (Inr (ResponseWithInstance instance json), s2) \<Rightarrow>
                           if v_id instance = [] then
                             (Inl (new_Error (''Instance created but missing ID in response: '' @
                                json)), s2)
                           else (Inr (firewallGroupId, instance), s2))))"

text \<open>
  The security attachment loop, \<^verbatim>\<open>while (!firewallAttached && retryCount < maxRetries)\<close>.
  The result is \<^verbatim>\<open>firewallAttached\<close> when the loop is left.
\<close>

function attach_firewall ::
  "'w environment \<Rightarrow> string \<Rightarrow> string \<Rightarrow> nat \<Rightarrow> 'w sys \<Rightarrow> bool \<times> 'w sys" where
  "attach_firewall env firewallGroupId instanceId retryCount s =
     (if retryCount < maxRetries then
        (case perform (UpdateInstance instanceId firewallGroupId)
                (vultr_updateInstance env instanceId firewallGroupId) s of
           (Inl attachError, s1) \<Rightarrow>
             attach_firewall env firewallGroupId instanceId (retryCount + 1)
               (if retryCount + 1 < maxRetries then sleep env 10000 s1 else s1)
         | (Inr u, s1) \<Rightarrow>
             (case perform (GetInstance instanceId) (vultr_getInstance env instanceId)
                     (sleep env 3000 s1) of
                (Inl attachError, s2) \<Rightarrow>
                  attach_firewall env firewallGroupId instanceId (retryCount + 1)
                    (if retryCount + 1 < maxRetries then sleep env 10000 s2 else s2)
              | (Inr verifyInstance, s2) \<Rightarrow>
                  if (case verifyInstance of None \<Rightarrow> None | Some i \<Rightarrow> v_firewall_group_id i) =
                     Some firewallGroupId
                  then (True, s2)
                  else attach_firewall env firewallGroupId instanceId (retryCount + 1)
                         (sleep env 5000 s2)))
      else (False, s))"
  by pat_completeness auto
termination
  by (relation "measure (\<lambda>(env, firewallGroupId, instanceId, retryCount, s). maxRetries - retryCount)")
    auto

definition security_failure :: js_error where
  "security_failure =
     new_Error (''SECURITY FAILURE: Firewall could not be attached after '' @ show_nat maxRetries @
       '' attempts. Instance was destroyed for security. Please try again.'')"

definition enable_ddos :: "'w environment \<Rightarrow> string \<Rightarrow> 'w sys \<Rightarrow> 'w sys" where
  \<comment> \<open>optional; every failure is caught and logged\<close>
  "enable_ddos env instanceId s =
     (case perform (EnableDdos instanceId) (vultr_enableDdos env instanceId) s of
        (Inl ddosError, s1) \<Rightarrow> s1
      | (Inr u, s1) \<Rightarrow>
          snd (perform (GetInstance instanceId) (vultr_getInstance env instanceId)
                 (sleep env 2000 s1)))"

definition createInstanceFromSnapshot_try ::
  "'w environment \<Rightarrow> config \<Rightarrow> string \<Rightarrow> string \<Rightarrow> string option \<Rightarrow> 'w sys \<Rightarrow>
   (js_error + vultr_instance) \<times> 'w sys" where
  "createInstanceFromSnapshot_try env cfg snapshotId label region s =
     (case create_phase env cfg snapshotId label region s of
        (Inl error, s1) \<Rightarrow> (Inl error, s1)
      | (Inr (firewallGroupId, instance), s1) \<Rightarrow>
          (case attach_firewall env firewallGroupId (v_id instance) 0 s1 of
             (firewallAttached, s2) \<Rightarrow>
               if \<not> firewallAttached then
                 (case perform (DeleteInstance (v_id instance))
                         (vultr_deleteInstance env (v_id instance)) s2 of
                    (destroyed, s3) \<Rightarrow> (Inl security_failure, s3))
               else (Inr instance, enable_ddos env (v_id instance) s2)))"

definition createInstanceFromSnapshot ::
  "'w environment \<Rightarrow> config \<Rightarrow> string \<Rightarrow> string \<Rightarrow> string option \<Rightarrow> 'w sys \<Rightarrow>
   (js_error + vultr_instance) \<times> 'w sys" where
  "createInstanceFromSnapshot env cfg snapshotId label region s =
     (case createInstanceFromSnapshot_try env cfg snapshotId label region s of
        (Inr instance, s1) \<Rightarrow> (Inr instance, s1)
      | (Inl error, s1) \<Rightarrow>
          if str_includes (message error) ''VULTR_FIREWALL_GROUP_ID'' \<or>
             str_includes (message error) ''Invalid'' \<or>
             str_includes (message error) ''Vultr API'' \<or>
             str_includes (message error) ''Failed to attach'' \<or>
             str_includes (message error) ''Snapshot''
          then (Inl error, s1)
          else (Inl (new_Error (''Failed to create instance: '' @ message error)), s1))"

section \<open>Render serializer (\<^verbatim>\<open>updatePanel\<close>)\<close>

text \<open>
  \<^verbatim>\<open>updatePanel\<close> runs on one thread and gives control away only at an \<^verbatim>\<open>await\<close>.
  Its synchronisation is the code before the \<^verbatim>\<open>try\<close> and the \<^verbatim>\<open>finally\<close> block; the
  render between them reads and writes neither flag. The model is the transition system of
  these code sections. Besides the two flags, the state counts the invocations that are
  inside the \<^verbatim>\<open>try\<close> block (\<open>rendering\<close>), the invocations with an interaction that
  are suspended in the 100 ms wait (\<open>waiting\<close>), the callbacks scheduled by
  \<^verbatim>\<open>setTimeout(() => updatePanel(), 100)\<close> in the \<^verbatim>\<open>finally\<close> block that have not
  fired yet (\<open>scheduled\<close>), and how many renders have begun (\<open>renders\<close>).
\<close>

record panel_state =
  panelUpdateInProgress :: bool
  pendingPanelUpdate :: bool
  rendering :: nat
  waiting :: nat
  scheduled :: nat
  renders :: nat

datatype panel_event =
    Request \<comment> \<open>\<^verbatim>\<open>updatePanel()\<close> or \<^verbatim>\<open>updatePanel(null, channel)\<close> is called\<close>
  | RequestInteraction \<comment> \<open>\<^verbatim>\<open>updatePanel(interaction)\<close> is called\<close>
  | Resume \<comment> \<open>a suspended invocation continues after its 100 ms wait\<close>
  | Complete \<comment> \<open>the render in progress reaches the \<^verbatim>\<open>finally\<close> block\<close>
  | Fire \<comment> \<open>a callback scheduled by the \<^verbatim>\<open>finally\<close> block calls \<^verbatim>\<open>updatePanel()\<close>\<close>

definition initial_panel :: panel_state where
  "initial_panel = \<lparr>panelUpdateInProgress = False, pendingPanelUpdate = False,
     rendering = 0, waiting = 0, scheduled = 0, renders = 0\<rparr>"

definition acquire :: "panel_state \<Rightarrow> panel_state" where
  \<comment> \<open>\<^verbatim>\<open>panelUpdateInProgress = true; pendingPanelUpdate = false;\<close> and entry into the \<^verbatim>\<open>try\<close>\<close>
  "acquire p = p\<lparr>panelUpdateInProgress := True, pendingPanelUpdate := False,
                 rendering := rendering p + 1, renders := renders p + 1\<rparr>"

definition enter_without_interaction :: "panel_state \<Rightarrow> panel_state" where
  "enter_without_interaction p =
     (if panelUpdateInProgress p then p\<lparr>pendingPanelUpdate := True\<rparr> else acquire p)"

fun panel_step :: "panel_event \<Rightarrow> panel_state \<Rightarrow> panel_state option" where
  "panel_step Request p = Some (enter_without_interaction p)"
| "panel_step RequestInteraction p =
     Some (if panelUpdateInProgress p then p\<lparr>waiting := waiting p + 1\<rparr> else acquire p)"
| "panel_step Resume p =
     (if waiting p = 0 then None
      else Some (let q = p\<lparr>waiting := waiting p - 1\<rparr>
                 in if panelUpdateInProgress q then q else acquire q))"
| "panel_step Complete p =
     (if rendering p = 0 then None
      else Some (let q = p\<lparr>rendering := rendering p - 1, panelUpdateInProgress := False\<rparr>
                 in if pendingPanelUpdate q then q\<lparr>scheduled := scheduled q + 1\<rparr> else q))"
| "panel_step Fire p =
     (if scheduled p = 0 then None
      else Some (enter_without_interaction (p\<lparr>scheduled := scheduled p - 1\<rparr>)))"

fun panel_run :: "panel_event list \<Rightarrow> panel_state \<Rightarrow> panel_state option" where
  "panel_run [] p = Some p"
| "panel_run (e # es) p = (case panel_step e p of None \<Rightarrow> None | Some q \<Rightarrow> panel_run es q)"

section \<open>Example data\<close>

text \<open>
  A scripted world for the examples. The clock advances with the timers only. The
  provider knows seven instances; \<open>busy-1\<close> is reported twice and is gone (404) from the
  third lookup on, and its deletion is refused with 400; the firewall group never shows
  on \<open>open-1\<close>, which is what a creation with the label "Test" gives, and it shows on
  \<open>good-1\<close>, which is what any other creation gives; \<open>self-1\<close> is the server the bot
  runs on, as the metadata service says.
\<close>

record example_world =
  time :: int
  lookups :: nat

definition example_instance :: "string \<Rightarrow> string \<Rightarrow> string \<Rightarrow> string \<Rightarrow> string option \<Rightarrow> vultr_instance" where
  "example_instance i st pw addr snap =
     \<lparr>v_id = i, v_label = Some ''server'', v_status = Some st, v_power_status = Some pw,
      v_main_ip = Some addr, v_snapshot_id = snap, v_firewall_group_id = None\<rparr>"

definition example_snapshot_id :: string where
  "example_snapshot_id = ''0a1b2c3d-0000-4000-8000-00000000abcd''"

definition example_firewall_id :: string where
  "example_firewall_id = ''1c4c6504-5094-4de1-a0bc-f7e885580921''"

definition example_instances :: "vultr_instance list" where
  "example_instances =
     [example_instance ''self-1'' ''active'' ''running'' ''198.51.100.1'' None,
      example_instance ''busy-1'' ''active'' ''running'' ''198.51.100.2'' None,
      example_instance ''open-1'' ''pending'' ''stopped'' ''0.0.0.0'' None,
      example_instance ''snap-1'' ''active'' ''running'' ''198.51.100.4'' (Some ''host-image''),
      example_instance ''rest-1'' ''active'' ''stopped'' ''0.0.0.0'' None,
      example_instance ''live-1'' ''active'' ''running'' ''198.51.100.6'' None,
      (example_instance ''good-1'' ''pending'' ''stopped'' ''0.0.0.0'' None)
        \<lparr>v_firewall_group_id := Some example_firewall_id\<rparr>]"

definition http_error :: "nat \<Rightarrow> js_error" where
  "http_error n = \<lparr>message = ''Request failed'', response_status = Some n,
     response_data_error = None, response_data_message = None\<rparr>"

definition example_getInstance ::
  "string \<Rightarrow> example_world \<Rightarrow> (js_error + vultr_instance option) \<times> example_world" where
  "example_getInstance i w =
     (if i = ''busy-1'' \<and> 2 \<le> lookups w then Inl (http_error 404)
      else Inr (find (\<lambda>x. v_id x = i) example_instances),
      w\<lparr>lookups := lookups w + 1\<rparr>)"

definition example_deleteInstance ::
  "string \<Rightarrow> example_world \<Rightarrow> (js_error + unit) \<times> example_world" where
  "example_deleteInstance i w = (if i = ''busy-1'' then Inl (http_error 400) else Inr (), w)"

definition example_env :: "example_world environment" where
  "example_env = \<lparr>
     clock = time,
     timer_elapses = (\<lambda>d w. w\<lparr>time := time w + int d\<rparr>),
     vultr_getInstance = example_getInstance,
     vultr_listInstances = (\<lambda>w. (Inr (Some example_instances), w)),
     vultr_deleteInstance = example_deleteInstance,
     vultr_updateInstance = (\<lambda>i g w. (Inr (), w)),
     vultr_enableDdos = (\<lambda>i w. (Inr (), w)),
     vultr_createInstance = (\<lambda>snap label rgn plan w.
       (Inr (ResponseWithInstance
               (example_instance (if label = ''Test'' then ''open-1'' else ''good-1'')
                  ''pending'' ''stopped'' ''0.0.0.0'' (Some snap))
               ''{}''), w)),
     vultr_listSnapshots = (\<lambda>w.
       (Inr (Some [\<lparr>snap_id = example_snapshot_id, description = None, date_created = 0\<rparr>]), w)),
     direct_createInstance = (\<lambda>w. (Inl (http_error 401), w)),
     metadata_instanceid = (\<lambda>w. (Some (''self-1'' @ [CHR 0x0A]), w)),
     interaction_followUp = (\<lambda>n w. (Inr (), w)),
     users_fetch = (\<lambda>u w. (Inr True, w)),
     user_send = (\<lambda>u n w. (Inr (), w))\<rparr>"


definition example_cfg :: config where
  "example_cfg = \<lparr>
     EXCLUDE_INSTANCE_ID = None,
     EXCLUDE_SNAPSHOT_ID = Some ''host-image'',
     SELF_DESTRUCT_INITIAL_MINUTES = minutes_setting None,
     VULTR_FIREWALL_GROUP_ID = Some example_firewall_id,
     VULTR_REGION = None,
     VULTR_PLAN = None\<rparr>"


definition example_sys :: "instance_record list \<Rightarrow> example_world sys" where
  "example_sys reg = \<lparr>world = \<lparr>time = 1000, lookups = 0\<rparr>, trace = [], instanceState = reg,
     currentServerInstanceId = None\<rparr>"

definition rec_example :: instance_record where
  "rec_example = \<lparr>rid = ''i-1'', creator = \<lparr>creator_id = ''u1'', username = ''bob''\<rparr>,
     createdAt = 1000, status = Some ''running'', ip = Some ''203.0.113.7'', name = ''Arena'',
     lastUpdated = 1500,
     selfDestructTimer = Some \<lparr>expiresAt = 5000, initialDuration = 4000, extendedCount = 0,
       warningsSent = [''10min'']\<rparr>\<rparr>"


section \<open>Properties of the registry\<close>

lemma findIndex_Some:
  "findIndex P xs = Some k \<Longrightarrow> k < length xs \<and> P (xs ! k) \<and> find P xs = Some (xs ! k)"
proof (induction xs arbitrary: k)
  case Nil
  then show ?case by simp
next
  case (Cons x xs)
  then show ?case by (auto split: if_splits)
qed

lemma findIndex_None: "findIndex P xs = None \<Longrightarrow> find P xs = None"
  by (induction xs) (auto split: if_splits)

lemma find_findIndex:
  "find P xs = Some r \<Longrightarrow> \<exists>k. findIndex P xs = Some k \<and> xs ! k = r \<and> k < length xs"
  by (induction xs) (auto split: if_splits)

lemma findIndex_update:
  "findIndex P xs = Some k \<Longrightarrow> P v \<Longrightarrow> findIndex P (xs[k := v]) = Some k"
proof (induction xs arbitrary: k)
  case Nil
  then show ?case by simp
next
  case (Cons x xs)
  then show ?case by (cases k) (auto split: if_splits)
qed

lemma find_update:
  "findIndex P xs = Some k \<Longrightarrow> P v \<Longrightarrow> find P (xs[k := v]) = Some v"
  using findIndex_update [of P xs k v] findIndex_Some [of P "xs[k := v]" k]
  by simp

lemma updateInstance_tracked:
  assumes "instanceState_getInstance instances i = Some r"
  shows "instanceState_getInstance (snd (updateInstance instances now i st md)) i =
         Some (r\<lparr>status := st, lastUpdated := now,
                 ip := (case up_ip md of None \<Rightarrow> ip r | Some a \<Rightarrow> a),
                 selfDestructTimer :=
                   (case up_selfDestructTimer md of None \<Rightarrow> selfDestructTimer r | Some t \<Rightarrow> t)\<rparr>)"
proof -
  from assms obtain k where k: "findIndex (\<lambda>x. rid x = i) instances = Some k" "instances ! k = r"
    unfolding instanceState_getInstance_def using find_findIndex by fastforce
  from k findIndex_Some [OF k(1)] have ri: "rid r = i" by simp
  show ?thesis
    unfolding instanceState_getInstance_def updateInstance_def
    using k ri
    by (simp add: Let_def find_update split: option.splits)
qed



lemma updateInstance_ids:
  "map rid (snd (updateInstance xs now i st md)) = map rid xs"
proof (cases "findIndex (\<lambda>x. rid x = i) xs")
  case None
  then show ?thesis by (simp add: updateInstance_def)
next
  case (Some k)
  from findIndex_Some [OF Some] have "k < length xs" "rid (xs ! k) = i" by simp_all
  then have "(map rid xs)[k := i] = map rid xs" by (metis list_update_id nth_map)
  with Some \<open>rid (xs ! k) = i\<close> show ?thesis
    by (simp add: updateInstance_def Let_def map_update split: option.splits)
qed

lemma trackInstance_ids:
  assumes "distinct (map rid xs)"
  shows "distinct (map rid (snd (trackInstance xs ts i u n st md)))"
proof (cases "findIndex (\<lambda>x. rid x = i) xs")
  case None
  from findIndex_None [OF None] have "i \<notin> rid ` set xs" by (auto simp: find_None_iff)
  with None assms show ?thesis by (simp add: trackInstance_def Let_def)
next
  case (Some k)
  from findIndex_Some [OF Some] have "k < length xs" "rid (xs ! k) = i" by simp_all
  then have "(map rid xs)[k := i] = map rid xs" by (metis list_update_id nth_map)
  with Some assms show ?thesis by (simp add: trackInstance_def Let_def map_update)
qed


subsection \<open>Registry upsert\<close>

text \<open>
  Claim C4, as amended. When \<^verbatim>\<open>trackInstance\<close> is called for an id the registry
  already holds, the stored record is replaced: \<^verbatim>\<open>id\<close>, \<^verbatim>\<open>creator\<close>,
  \<^verbatim>\<open>createdAt\<close>, \<^verbatim>\<open>status\<close>, \<^verbatim>\<open>ip\<close>, \<^verbatim>\<open>name\<close> and \<^verbatim>\<open>lastUpdated\<close> are
  computed afresh from the call (status defaults to "creating", ip to null, name to
  "<username>'s Server", both timestamps are the time of the call), and only the fields
  outside that set, that is \<^verbatim>\<open>selfDestructTimer\<close>, are kept from the existing record.
  The registry keeps its length.
\<close>

theorem trackInstance_existing:
  assumes "instanceState_getInstance instances i = Some old"
  shows "instanceState_getInstance (snd (trackInstance instances ts i uid un st md)) i =
     Some \<lparr>rid = i, creator = \<lparr>creator_id = uid, username = un\<rparr>, createdAt = ts,
       status = Some (js_or st ''creating''),
       ip = (if truthy (md_ip md) then md_ip md else None),
       name = js_or (md_name md) (un @ [CHR 0x27] @ ''s Server''),
       lastUpdated = ts, selfDestructTimer = selfDestructTimer old\<rparr>
     \<and> length (snd (trackInstance instances ts i uid un st md)) = length instances"
proof -
  from assms obtain k where k: "findIndex (\<lambda>x. rid x = i) instances = Some k" "instances ! k = old"
    unfolding instanceState_getInstance_def using find_findIndex by fastforce
  show ?thesis
    unfolding instanceState_getInstance_def trackInstance_def
    using k by (simp add: Let_def find_update)
qed

theorem trackInstance_existing_witness:
  "instanceState_getInstance
     (snd (trackInstance [rec_example] 2000 ''i-1'' ''u1'' ''bob'' None \<lparr>md_ip = None, md_name = None\<rparr>)) ''i-1'' =
   Some \<lparr>rid = ''i-1'', creator = \<lparr>creator_id = ''u1'', username = ''bob''\<rparr>, createdAt = 2000,
       status = Some ''creating'', ip = None, name = ''bob'' @ [CHR 0x27] @ ''s Server'',
       lastUpdated = 2000, selfDestructTimer = selfDestructTimer rec_example\<rparr>"
proof -
  have h: "instanceState_getInstance [rec_example] ''i-1'' = Some rec_example"
    by (simp add: instanceState_getInstance_def rec_example_def)
  show ?thesis
    using trackInstance_existing [OF h, of 2000 "''u1''" "''bob''" None "\<lparr>md_ip = None, md_name = None\<rparr>"]
    by (simp add: js_or_def truthy_def)
qed

text \<open>
  Claim C4 as stated fails: an upsert whose metadata omits \<^verbatim>\<open>ip\<close> and \<^verbatim>\<open>name\<close>
  (and whose status is undefined) on an existing record with ip 203.0.113.7, name
  "Arena", createdAt 1000 and status "running" stores ip null, name "bob's Server",
  createdAt 2000 and status "creating".
\<close>

theorem trackInstance_overwrites:
  "trackInstance [rec_example] 2000 ''i-1'' ''u1'' ''bob'' None \<lparr>md_ip = None, md_name = None\<rparr> =
     (rec_example\<lparr>createdAt := 2000, status := Some ''creating'', ip := None,
        name := ''bob'' @ [CHR 0x27] @ ''s Server'', lastUpdated := 2000, selfDestructTimer := None\<rparr>,
      [rec_example\<lparr>createdAt := 2000, status := Some ''creating'', ip := None,
        name := ''bob'' @ [CHR 0x27] @ ''s Server'', lastUpdated := 2000\<rparr>])
   \<and> ip rec_example = Some ''203.0.113.7'' \<and> name rec_example = ''Arena''
   \<and> createdAt rec_example = 1000 \<and> status rec_example = Some ''running''"
  by (simp add: trackInstance_def rec_example_def js_or_def truthy_def Let_def)

subsection \<open>Timer initialisation\<close>

text \<open>
  Claim C7. A call of \<^verbatim>\<open>initializeSelfDestructTimer\<close> for a record that already has a
  timer changes nothing in the registry (so \<^verbatim>\<open>expiresAt\<close>, \<^verbatim>\<open>extendedCount\<close> and
  \<^verbatim>\<open>warningsSent\<close> stay as they are); a call for a tracked record without a timer
  creates it; hence a second call, at any later time and with any configured duration,
  is a no-op after a first one.
\<close>

theorem initializeSelfDestructTimer_once:
  "(instanceState_getInstance instances i = Some r \<and> selfDestructTimer r = Some t \<longrightarrow>
      initializeSelfDestructTimer M' instances now' i = instances)
   \<and> (instanceState_getInstance instances i = Some r \<and> selfDestructTimer r = None \<longrightarrow>
      (\<exists>r'. instanceState_getInstance (initializeSelfDestructTimer M instances now i) i = Some r' \<and>
         selfDestructTimer r' = Some \<lparr>expiresAt = now + M * 60 * 1000,
           initialDuration = M * 60 * 1000, extendedCount = 0, warningsSent = []\<rparr>))
   \<and> initializeSelfDestructTimer M' (initializeSelfDestructTimer M instances now i) now' i =
       initializeSelfDestructTimer M instances now i"
proof (intro conjI impI)
  assume "instanceState_getInstance instances i = Some r \<and> selfDestructTimer r = Some t"
  then show "initializeSelfDestructTimer M' instances now' i = instances"
    by (simp add: initializeSelfDestructTimer_def)
next
  assume a: "instanceState_getInstance instances i = Some r \<and> selfDestructTimer r = None"
  then show "\<exists>r'. instanceState_getInstance (initializeSelfDestructTimer M instances now i) i = Some r' \<and>
         selfDestructTimer r' = Some \<lparr>expiresAt = now + M * 60 * 1000,
           initialDuration = M * 60 * 1000, extendedCount = 0, warningsSent = []\<rparr>"
    using updateInstance_tracked [of instances i r]
    by (simp add: initializeSelfDestructTimer_def timer_metadata_def)
next
  show "initializeSelfDestructTimer M' (initializeSelfDestructTimer M instances now i) now' i =
       initializeSelfDestructTimer M instances now i"
  proof (cases "instanceState_getInstance instances i")
    case None
    then show ?thesis by (simp add: initializeSelfDestructTimer_def)
  next
    case (Some r)
    show ?thesis
    proof (cases "selfDestructTimer r")
      case None
      with Some show ?thesis
        using updateInstance_tracked [of instances i r]
        by (simp add: initializeSelfDestructTimer_def timer_metadata_def)
    next
      case (Some t)
      with \<open>instanceState_getInstance instances i = Some r\<close> show ?thesis
        by (simp add: initializeSelfDestructTimer_def)
    qed
  qed
qed

theorem initializeSelfDestructTimer_once_witness:
  "initializeSelfDestructTimer 180 [rec_example] 99000 ''i-1'' = [rec_example]
   \<and> (\<exists>r'. instanceState_getInstance
          (initializeSelfDestructTimer (minutes_setting None)
             [rec_example\<lparr>selfDestructTimer := None\<rparr>] 2000 ''i-1'') ''i-1'' = Some r' \<and>
        selfDestructTimer r' = Some \<lparr>expiresAt = 10802000, initialDuration = 10800000,
          extendedCount = 0, warningsSent = []\<rparr>)
   \<and> initializeSelfDestructTimer 180
        (initializeSelfDestructTimer (minutes_setting None)
           [rec_example\<lparr>selfDestructTimer := None\<rparr>] 2000 ''i-1'') 99000 ''i-1'' =
      initializeSelfDestructTimer (minutes_setting None)
        [rec_example\<lparr>selfDestructTimer := None\<rparr>] 2000 ''i-1''"
proof -
  let ?t = "\<lparr>expiresAt = 5000, initialDuration = 4000, extendedCount = 0, warningsSent = [''10min'']\<rparr>"
  let ?bare = "rec_example\<lparr>selfDestructTimer := None\<rparr>"
  have h1: "instanceState_getInstance [rec_example] ''i-1'' = Some rec_example \<and>
      selfDestructTimer rec_example = Some ?t"
    by (simp add: instanceState_getInstance_def rec_example_def)
  have h2: "instanceState_getInstance [?bare] ''i-1'' = Some ?bare \<and> selfDestructTimer ?bare = None"
    by (simp add: instanceState_getInstance_def rec_example_def)
  note a = initializeSelfDestructTimer_once [where instances = "[rec_example]" and i = "''i-1''"
      and r = rec_example and t = ?t and M' = 180 and now' = 99000]
  note b = initializeSelfDestructTimer_once [where instances = "[?bare]" and i = "''i-1''"
      and r = ?bare and M = "minutes_setting None" and now = 2000 and M' = 180 and now' = 99000]
  from a [THEN conjunct1, THEN mp, OF h1]
  have 1: "initializeSelfDestructTimer 180 [rec_example] 99000 ''i-1'' = [rec_example]" .
  from b [THEN conjunct2, THEN conjunct1, THEN mp, OF h2]
  have 2: "\<exists>r'. instanceState_getInstance
          (initializeSelfDestructTimer (minutes_setting None) [?bare] 2000 ''i-1'') ''i-1'' = Some r' \<and>
        selfDestructTimer r' = Some \<lparr>expiresAt = 10802000, initialDuration = 10800000,
          extendedCount = 0, warningsSent = []\<rparr>"
    by (simp add: minutes_setting_def)
  note 3 = b [THEN conjunct2, THEN conjunct2]
  from 1 2 3 show ?thesis by blast
qed

subsection \<open>Timer extension\<close>

text \<open>
  Claim C8, as amended. For a record with a timer, both coin handlers answer with
  \<^verbatim>\<open>expiresAt + SELF_DESTRUCT_COIN_MINUTES * 60 * 1000\<close>, store that as the new
  \<^verbatim>\<open>expiresAt\<close>, add one to \<^verbatim>\<open>extendedCount\<close> and leave \<^verbatim>\<open>warningsSent\<close> (and
  every other field but \<^verbatim>\<open>lastUpdated\<close>) unchanged. The stored expiry is strictly later
  than the one before exactly when the configured number of minutes is positive, which it
  is unless the setting is a negative number (an unset, unreadable or zero setting gives
  the default of 180). For an id with no record or with a record without timer, both
  handlers fail with \<open>NoActiveTimer\<close> and leave the registry as it is.
\<close>

theorem extend_timer:
  "(instanceState_getInstance instances i = Some r \<and> selfDestructTimer r = Some t \<longrightarrow>
      (\<forall>h \<in> {insert_coin_server, coin_button}.
         fst (h M instances now i) = Inr (expiresAt t + M * 60 * 1000) \<and>
         instanceState_getInstance (snd (h M instances now i)) i =
           Some (r\<lparr>lastUpdated := now,
                   selfDestructTimer := Some (t\<lparr>expiresAt := expiresAt t + M * 60 * 1000,
                                                extendedCount := extendedCount t + 1\<rparr>)\<rparr>) \<and>
         (\<exists>r' t'. instanceState_getInstance (snd (h M instances now i)) i = Some r' \<and>
            selfDestructTimer r' = Some t' \<and>
            warningsSent t' = warningsSent t \<and> extendedCount t' = extendedCount t + 1 \<and>
            (expiresAt t < expiresAt t' \<longleftrightarrow> 0 < M))))
   \<and> ((\<forall>r. instanceState_getInstance instances i = Some r \<longrightarrow> selfDestructTimer r = None) \<longrightarrow>
      (\<forall>h \<in> {insert_coin_server, coin_button}.
         h M instances now i = (Inl NoActiveTimer, instances)))
   \<and> (0 < minutes_setting parsed \<longleftrightarrow> (\<forall>n. parsed = Some n \<longrightarrow> 0 \<le> n))"
proof (intro conjI impI)
  assume a: "instanceState_getInstance instances i = Some r \<and> selfDestructTimer r = Some t"
  then show "\<forall>h \<in> {insert_coin_server, coin_button}.
         fst (h M instances now i) = Inr (expiresAt t + M * 60 * 1000) \<and>
         instanceState_getInstance (snd (h M instances now i)) i =
           Some (r\<lparr>lastUpdated := now,
                   selfDestructTimer := Some (t\<lparr>expiresAt := expiresAt t + M * 60 * 1000,
                                                extendedCount := extendedCount t + 1\<rparr>)\<rparr>) \<and>
         (\<exists>r' t'. instanceState_getInstance (snd (h M instances now i)) i = Some r' \<and>
            selfDestructTimer r' = Some t' \<and>
            warningsSent t' = warningsSent t \<and> extendedCount t' = extendedCount t + 1 \<and>
            (expiresAt t < expiresAt t' \<longleftrightarrow> 0 < M))"
    using updateInstance_tracked [of instances i r]
    by (simp add: insert_coin_server_def coin_button_def Let_def timer_metadata_def)
next
  assume "\<forall>r. instanceState_getInstance instances i = Some r \<longrightarrow> selfDestructTimer r = None"
  then show "\<forall>h \<in> {insert_coin_server, coin_button}.
         h M instances now i = (Inl NoActiveTimer, instances)"
    by (auto simp: insert_coin_server_def coin_button_def split: option.splits)
next
  show "0 < minutes_setting parsed \<longleftrightarrow> (\<forall>n. parsed = Some n \<longrightarrow> 0 \<le> n)"
    by (cases parsed) (auto simp: minutes_setting_def)
qed

theorem extend_timer_witness:
  "insert_coin_server (minutes_setting None) [rec_example] 3000 ''i-1'' =
     (Inr 10805000,
      [rec_example\<lparr>lastUpdated := 3000,
         selfDestructTimer := Some \<lparr>expiresAt = 10805000, initialDuration = 4000,
           extendedCount = 1, warningsSent = [''10min'']\<rparr>\<rparr>])
   \<and> coin_button (minutes_setting None) [rec_example] 3000 ''i-2'' = (Inl NoActiveTimer, [rec_example])
   \<and> 0 < minutes_setting (Some 30)"
proof -
  let ?t = "\<lparr>expiresAt = 5000, initialDuration = 4000, extendedCount = 0, warningsSent = [''10min'']\<rparr>"
  have h1: "instanceState_getInstance [rec_example] ''i-1'' = Some rec_example \<and>
            selfDestructTimer rec_example = Some ?t"
    by (simp add: instanceState_getInstance_def rec_example_def)
  have h2: "\<forall>r. instanceState_getInstance [rec_example] ''i-2'' = Some r \<longrightarrow> selfDestructTimer r = None"
    by (simp add: instanceState_getInstance_def rec_example_def)
  from extend_timer [of "[rec_example]" "''i-1''" rec_example ?t "minutes_setting None" 3000] h1
  have a: "fst (insert_coin_server (minutes_setting None) [rec_example] 3000 ''i-1'') = Inr 10805000"
    by (simp add: minutes_setting_def)
  from extend_timer [of "[rec_example]" "''i-2''" rec_example ?t "minutes_setting None" 3000] h2
  have b: "coin_button (minutes_setting None) [rec_example] 3000 ''i-2'' = (Inl NoActiveTimer, [rec_example])"
    by simp
  from extend_timer [of "[rec_example]" "''i-2''" rec_example ?t "minutes_setting None" 3000 "Some 30"]
  have d: "0 < minutes_setting (Some 30)" by simp
  have c: "snd (insert_coin_server (minutes_setting None) [rec_example] 3000 ''i-1'') =
      [rec_example\<lparr>lastUpdated := 3000,
         selfDestructTimer := Some \<lparr>expiresAt = 10805000, initialDuration = 4000,
           extendedCount = 1, warningsSent = [''10min'']\<rparr>\<rparr>]"
    by (simp add: insert_coin_server_def instanceState_getInstance_def rec_example_def
        updateInstance_def timer_metadata_def minutes_setting_def Let_def)
  from a b c d show ?thesis by (simp add: prod_eq_iff)
qed

text \<open>
  Claim C8 as stated fails: the increment is whatever \<^verbatim>\<open>parseInt\<close> reads from the
  setting, and nothing checks its sign. With \<^verbatim>\<open>SELF_DESTRUCT_COIN_MINUTES=-5\<close> an
  extension moves an expiry of 5000 back to -295000, so an extension does not increase the
  expiry in every case.
\<close>

theorem extend_timer_moves_expiry_back:
  "selfDestructTimer rec_example =
     Some \<lparr>expiresAt = 5000, initialDuration = 4000, extendedCount = 0, warningsSent = [''10min'']\<rparr>
   \<and> minutes_setting (Some (- 5)) = - 5
   \<and> insert_coin_server (minutes_setting (Some (- 5))) [rec_example] 3000 ''i-1'' =
       (Inr (- 295000),
        [rec_example\<lparr>lastUpdated := 3000,
           selfDestructTimer := Some \<lparr>expiresAt = - 295000, initialDuration = 4000,
             extendedCount = 1, warningsSent = [''10min'']\<rparr>\<rparr>])
   \<and> coin_button (minutes_setting (Some (- 5))) [rec_example] 3000 ''i-1'' =
       (Inr (- 295000),
        [rec_example\<lparr>lastUpdated := 3000,
           selfDestructTimer := Some \<lparr>expiresAt = - 295000, initialDuration = 4000,
             extendedCount = 1, warningsSent = [''10min'']\<rparr>\<rparr>])
   \<and> \<not> (5000 :: int) < - 295000"
  by (simp add: insert_coin_server_def coin_button_def instanceState_getInstance_def
      rec_example_def updateInstance_def timer_metadata_def minutes_setting_def Let_def)

section \<open>Properties of the render serializer\<close>

lemma panel_step_inv:
  assumes "panel_step e p = Some q"
    and "rendering p \<le> 1" and "panelUpdateInProgress p \<longleftrightarrow> rendering p = 1"
  shows "rendering q \<le> 1 \<and> (panelUpdateInProgress q \<longleftrightarrow> rendering q = 1)"
  using assms
  by (cases e) (auto simp: acquire_def enter_without_interaction_def Let_def split: if_splits)

lemma panel_run_inv:
  assumes "panel_run es p = Some q"
    and "rendering p \<le> 1" and "panelUpdateInProgress p \<longleftrightarrow> rendering p = 1"
  shows "rendering q \<le> 1 \<and> (panelUpdateInProgress q \<longleftrightarrow> rendering q = 1)"
  using assms
proof (induction es arbitrary: p)
  case Nil
  then show ?case by simp
next
  case (Cons e es)
  from Cons.prems(1) obtain p' where s: "panel_step e p = Some p'" and r: "panel_run es p' = Some q"
    by (auto split: option.splits)
  from panel_step_inv [OF s Cons.prems(2,3)] Cons.IH [OF r] show ?case by blast
qed

lemma panel_run_append:
  "panel_run (es @ fs) p = (case panel_run es p of None \<Rightarrow> None | Some q \<Rightarrow> panel_run fs q)"
  by (induction es arbitrary: p) (auto split: option.splits)

lemma requests_coalesce:
  assumes "panelUpdateInProgress p" and "0 < n"
  shows "panel_run (replicate n Request) p = Some (p\<lparr>pendingPanelUpdate := True\<rparr>)"
  using assms
proof (induction n arbitrary: p)
  case 0
  then show ?case by simp
next
  case (Suc n)
  show ?case
  proof (cases n)
    case 0
    with Suc.prems show ?thesis by (simp add: enter_without_interaction_def)
  next
    case (Suc m)
    then have "0 < n" by simp
    from Suc.IH [OF _ this, of "p\<lparr>pendingPanelUpdate := True\<rparr>"] Suc.prems(1)
    show ?thesis by (simp add: enter_without_interaction_def)
  qed
qed

text \<open>
  Claim C3, as amended. At no point do two renders run at once: in every state reachable
  from the initial one, at most one invocation is inside the render. And for every
  \<open>n \<ge> 1\<close>: when \<open>n\<close> requests without an interaction (\<^verbatim>\<open>updatePanel()\<close>, as the
  periodic refresh and the timers call it) arrive while a render is in progress, they leave
  one pending flag; when the render completes, one callback is scheduled; when it fires,
  one more render begins, and when that one completes nothing further is scheduled. So
  exactly one additional render executes.
\<close>

theorem render_serializer:
  "(panel_run es initial_panel = Some q \<longrightarrow> rendering q \<le> 1)
   \<and> (panelUpdateInProgress p \<and> rendering p = 1 \<and> 0 < n \<longrightarrow>
        panel_run (replicate n Request @ [Complete]) p =
          Some (p\<lparr>pendingPanelUpdate := True, panelUpdateInProgress := False, rendering := 0,
                  scheduled := scheduled p + 1\<rparr>)
        \<and> panel_run (replicate n Request @ [Complete, Fire]) p =
          Some (p\<lparr>pendingPanelUpdate := False, panelUpdateInProgress := True, rendering := 1,
                  renders := renders p + 1\<rparr>)
        \<and> panel_run (replicate n Request @ [Complete, Fire, Complete]) p =
          Some (p\<lparr>pendingPanelUpdate := False, panelUpdateInProgress := False, rendering := 0,
                  renders := renders p + 1\<rparr>))"
proof (intro conjI impI)
  assume "panel_run es initial_panel = Some q"
  from panel_run_inv [OF this] show "rendering q \<le> 1" by (simp add: initial_panel_def)
next
  assume a: "panelUpdateInProgress p \<and> rendering p = 1 \<and> 0 < n"
  then have c: "panel_run (replicate n Request) p = Some (p\<lparr>pendingPanelUpdate := True\<rparr>)"
    using requests_coalesce by blast
  show "panel_run (replicate n Request @ [Complete]) p =
          Some (p\<lparr>pendingPanelUpdate := True, panelUpdateInProgress := False, rendering := 0,
                  scheduled := scheduled p + 1\<rparr>)"
    using a by (simp add: panel_run_append c)
  show "panel_run (replicate n Request @ [Complete, Fire]) p =
          Some (p\<lparr>pendingPanelUpdate := False, panelUpdateInProgress := True, rendering := 1,
                  renders := renders p + 1\<rparr>)"
    using a by (simp add: panel_run_append c enter_without_interaction_def acquire_def)
  show "panel_run (replicate n Request @ [Complete, Fire, Complete]) p =
          Some (p\<lparr>pendingPanelUpdate := False, panelUpdateInProgress := False, rendering := 0,
                  renders := renders p + 1\<rparr>)"
    using a by (simp add: panel_run_append c enter_without_interaction_def acquire_def)
qed

theorem render_serializer_witness:
  "panel_run (replicate 3 Request @ [Complete, Fire, Complete]) (acquire initial_panel) =
     Some \<lparr>panelUpdateInProgress = False, pendingPanelUpdate = False,
       rendering = 0, waiting = 0, scheduled = 0, renders = 2\<rparr>
   \<and> panel_run [Request] initial_panel = Some (acquire initial_panel)
   \<and> rendering (acquire initial_panel) \<le> 1"
  using render_serializer [of "[Request]" "acquire initial_panel" "acquire initial_panel" 3]
  by (simp add: initial_panel_def enter_without_interaction_def acquire_def)

text \<open>
  Claim C3 as stated fails for a request that carries an interaction: while a render is
  in progress it sets no pending flag, waits 100 ms once and, the render still being in
  progress, returns. After the render completes nothing is scheduled, and only the first
  render has run.
\<close>

theorem render_request_dropped:
  "panel_run [Request, RequestInteraction, Resume, Complete] initial_panel =
     Some \<lparr>panelUpdateInProgress = False, pendingPanelUpdate = False,
       rendering = 0, waiting = 0, scheduled = 0, renders = 1\<rparr>"
  by (simp add: initial_panel_def enter_without_interaction_def acquire_def)

section \<open>Properties of the provider-access layer\<close>

lemma trim_example:
  "trim [CHR ''s'', CHR ''e'', CHR ''l'', CHR ''f'', CHR ''-'', CHR ''1'', CHR 0x0A] = ''self-1''"
  by (simp add: trim_def white_space_def)

lemma perform_frame:
  assumes "perform ev f s = (r, s')"
  shows "trace s' = trace s @ [ev]" "instanceState s' = instanceState s"
    "currentServerInstanceId s' = currentServerInstanceId s"
    "f (world s) = (r, world s')"
  using assms by (auto simp: perform_def split: prod.splits)


lemma getCurrentServerInstanceId_frame:
  assumes "getCurrentServerInstanceId env cfg s = (r, s')"
  shows "trace s' = trace s @ [MetadataRequest]" "instanceState s' = instanceState s"
proof -
  obtain m s1 where p: "perform MetadataRequest (metadata_instanceid env) s = (m, s1)" by fastforce
  with assms have "s' = s1" by (auto simp: getCurrentServerInstanceId_def split: option.splits)
  with perform_frame [OF p] show "trace s' = trace s @ [MetadataRequest]"
    "instanceState s' = instanceState s" by simp_all
qed

lemma isCurrentServer_frame:
  assumes "isCurrentServer env cfg i s = (b, s')"
  shows "\<exists>evs. trace s' = trace s @ evs \<and> set evs \<subseteq> {MetadataRequest}"
    "instanceState s' = instanceState s"
proof -
  obtain r s1 where g: "getCurrentServerInstanceId env cfg s = (r, s1)" by fastforce
  from assms g have "s' = s \<or> s' = s1\<lparr>currentServerInstanceId := r\<rparr>"
    by (auto simp: isCurrentServer_def Let_def split: if_splits)
  with getCurrentServerInstanceId_frame [OF g]
  show "\<exists>evs. trace s' = trace s @ evs \<and> set evs \<subseteq> {MetadataRequest}"
    "instanceState s' = instanceState s" by auto
qed

lemma getInstance_frame:
  assumes "getInstance env cfg i s = (r, s')"
  shows "\<exists>evs. trace s' = trace s @ GetInstance i # evs \<and> set evs \<subseteq> {MetadataRequest}"
    "instanceState s' = instanceState s"
proof -
  obtain a s1 where p: "perform (GetInstance i) (vultr_getInstance env i) s = (a, s1)" by fastforce
  obtain b s2 where c: "isCurrentServer env cfg i s1 = (b, s2)" by fastforce
  from assms p c have "s' = s1 \<or> s' = s2"
    by (auto simp: getInstance_def split: sum.splits option.splits if_splits)
  with perform_frame [OF p] isCurrentServer_frame [OF c]
  show "\<exists>evs. trace s' = trace s @ GetInstance i # evs \<and> set evs \<subseteq> {MetadataRequest}"
    "instanceState s' = instanceState s" by auto
qed

lemma new_events_append: "trace s' = trace s @ evs \<Longrightarrow> new_events s s' = evs"
  by (simp add: new_events_def)

lemma isCurrentServer_result:
  "isCurrentServer env cfg i s = (b, s') \<Longrightarrow>
     currentServerInstanceId s' = auto_detected env cfg s \<and>
     b = (auto_detected env cfg s = Some i \<or> EXCLUDE_INSTANCE_ID cfg = Some i)"
  by (auto simp: isCurrentServer_def auto_detected_def Let_def split: if_splits prod.splits)

lemma isCurrentServer_cached:
  "truthy (currentServerInstanceId s) \<Longrightarrow>
     isCurrentServer env cfg i s =
       (currentServerInstanceId s = Some i \<or> EXCLUDE_INSTANCE_ID cfg = Some i, s)"
  by (simp add: isCurrentServer_def)

lemma filter_current_cached:
  "truthy (currentServerInstanceId s) \<Longrightarrow>
     filter_current env cfg xs s =
       (filter (\<lambda>x. \<not> (currentServerInstanceId s = Some (v_id x) \<or>
                        EXCLUDE_INSTANCE_ID cfg = Some (v_id x))) xs, s)"
  by (induction xs) (simp_all add: isCurrentServer_cached)

lemma filter_current_env_id:
  "filter_current env cfg xs s = (l, s') \<Longrightarrow> x \<in> set l \<Longrightarrow>
     x \<in> set xs \<and> EXCLUDE_INSTANCE_ID cfg \<noteq> Some (v_id x)"
proof (induction xs arbitrary: s l s')
  case Nil
  then show ?case by simp
next
  case (Cons a xs)
  obtain b s1 where b: "isCurrentServer env cfg (v_id a) s = (b, s1)" by fastforce
  obtain l1 s2 where r: "filter_current env cfg xs s1 = (l1, s2)" by fastforce
  from Cons.prems(1) b r have l: "l = (if \<not> b then a # l1 else l1)" by simp
  show ?case
  proof (cases "x \<in> set l1")
    case True
    from Cons.IH [OF r True] show ?thesis by simp
  next
    case False
    with l Cons.prems(2) have "x = a" "\<not> b" by (auto split: if_splits)
    with isCurrentServer_result [OF b] show ?thesis by simp
  qed
qed

lemma filter_current_detected:
  assumes "filter_current env cfg xs s = (l, s')" and "x \<in> set l"
    and "truthy (auto_detected env cfg s)"
  shows "auto_detected env cfg s \<noteq> Some (v_id x)"
proof (cases xs)
  case Nil
  with assms show ?thesis by simp
next
  case (Cons a ys)
  obtain b s1 where b: "isCurrentServer env cfg (v_id a) s = (b, s1)" by fastforce
  from isCurrentServer_result [OF b] assms(3)
  have c: "currentServerInstanceId s1 = auto_detected env cfg s" "truthy (currentServerInstanceId s1)"
    by simp_all
  from assms(1) Cons b filter_current_cached [OF c(2), of env cfg ys]
  have l: "l = (if \<not> b then [a] else []) @
      filter (\<lambda>x. \<not> (currentServerInstanceId s1 = Some (v_id x) \<or>
                        EXCLUDE_INSTANCE_ID cfg = Some (v_id x))) ys"
    by (auto split: if_splits)
  show ?thesis
  proof (cases "x = a \<and> \<not> b")
    case True
    with isCurrentServer_result [OF b] show ?thesis by simp
  next
    case False
    with l assms(2) have "\<not> currentServerInstanceId s1 = Some (v_id x)"
      by (auto split: if_splits)
    with c show ?thesis by simp
  qed
qed

lemma getInstance_protected:
  assumes "perform (GetInstance i) (vultr_getInstance env i) s = (Inr (Some inst), s1)"
    and "auto_detected env cfg s1 = Some i \<or> EXCLUDE_INSTANCE_ID cfg = Some i \<or>
         (truthy (EXCLUDE_SNAPSHOT_ID cfg) \<and> v_snapshot_id inst = EXCLUDE_SNAPSHOT_ID cfg)"
  shows "fst (getInstance env cfg i s) = Inr None"
proof -
  obtain b s2 where b: "isCurrentServer env cfg i s1 = (b, s2)" by fastforce
  from isCurrentServer_result [OF b] assms show ?thesis
    by (auto simp: getInstance_def b)
qed

lemma getInstance_returned:
  assumes "getInstance env cfg i s = (Inr (Some inst), s')"
  shows "currentServerInstanceId s' \<noteq> Some i \<and> EXCLUDE_INSTANCE_ID cfg \<noteq> Some i \<and>
         \<not> (truthy (EXCLUDE_SNAPSHOT_ID cfg) \<and> v_snapshot_id inst = EXCLUDE_SNAPSHOT_ID cfg)"
proof -
  obtain r s1 where p: "perform (GetInstance i) (vultr_getInstance env i) s = (r, s1)" by fastforce
  obtain b s2 where b: "isCurrentServer env cfg i s1 = (b, s2)" by fastforce
  from assms p b isCurrentServer_result [OF b] show ?thesis
    by (auto simp: getInstance_def split: sum.splits option.splits if_splits)
qed

lemma listInstances_returned:
  assumes "listInstances env cfg s = (Inr l, s')" and "x \<in> set l"
  shows "EXCLUDE_INSTANCE_ID cfg \<noteq> Some (v_id x) \<and>
         \<not> (truthy (EXCLUDE_SNAPSHOT_ID cfg) \<and> v_snapshot_id x = EXCLUDE_SNAPSHOT_ID cfg) \<and>
         (truthy (auto_detected env cfg (snd (perform ListInstances (vultr_listInstances env) s))) \<longrightarrow>
          auto_detected env cfg (snd (perform ListInstances (vultr_listInstances env) s)) \<noteq> Some (v_id x))"
proof -
  obtain r s1 where p: "perform ListInstances (vultr_listInstances env) s = (r, s1)" by fastforce
  with assms(1) obtain resp where r: "r = Inr resp"
    by (cases r) (auto simp: listInstances_def)
  obtain l1 s2 where f: "filter_current env cfg (case resp of None \<Rightarrow> [] | Some l \<Rightarrow> l) s1 = (l1, s2)"
    by fastforce
  from assms(1) p r f have l: "l = (if truthy (EXCLUDE_SNAPSHOT_ID cfg)
      then filter (\<lambda>instance. v_snapshot_id instance \<noteq> EXCLUDE_SNAPSHOT_ID cfg) l1 else l1)"
    by (auto simp: listInstances_def split: if_splits)
  with assms(2) have x: "x \<in> set l1" by (auto split: if_splits)
  from filter_current_env_id [OF f x] have 1: "EXCLUDE_INSTANCE_ID cfg \<noteq> Some (v_id x)" by simp
  from l assms(2) have 2: "\<not> (truthy (EXCLUDE_SNAPSHOT_ID cfg) \<and> v_snapshot_id x = EXCLUDE_SNAPSHOT_ID cfg)"
    by (auto split: if_splits)
  from filter_current_detected [OF f x] p
  have 3: "truthy (auto_detected env cfg (snd (perform ListInstances (vultr_listInstances env) s))) \<longrightarrow>
          auto_detected env cfg (snd (perform ListInstances (vultr_listInstances env) s)) \<noteq> Some (v_id x)"
    by simp
  from 1 2 3 show ?thesis by blast
qed

text \<open>
  Claim C10. When the provider answers \<^verbatim>\<open>getInstance\<close> with an instance, and the
  requested id is the auto-detected id of the current server or the configured
  \<^verbatim>\<open>EXCLUDE_INSTANCE_ID\<close>, or the instance was created from the configured
  \<^verbatim>\<open>EXCLUDE_SNAPSHOT_ID\<close>, the wrapper \<^verbatim>\<open>getInstance\<close> returns null. Whenever it
  returns an instance, that instance is none of these. Every instance that
  \<^verbatim>\<open>listInstances\<close> returns has an id different from \<^verbatim>\<open>EXCLUDE_INSTANCE_ID\<close> and
  from the detected id of the current server, and was not created from the excluded
  snapshot. The pollers and the timer sweep reach the provider's instances through
  \<^verbatim>\<open>getInstance\<close> only, so they see the bot's own host as absent.
\<close>

theorem self_protection:
  "(perform (GetInstance i) (vultr_getInstance env i) s = (Inr (Some inst), s1) \<and>
      (auto_detected env cfg s1 = Some i \<or> EXCLUDE_INSTANCE_ID cfg = Some i \<or>
       (truthy (EXCLUDE_SNAPSHOT_ID cfg) \<and> v_snapshot_id inst = EXCLUDE_SNAPSHOT_ID cfg)) \<longrightarrow>
      fst (getInstance env cfg i s) = Inr None)
   \<and> (getInstance env cfg i s = (Inr (Some inst), s') \<longrightarrow>
        currentServerInstanceId s' \<noteq> Some i \<and> EXCLUDE_INSTANCE_ID cfg \<noteq> Some i \<and>
        \<not> (truthy (EXCLUDE_SNAPSHOT_ID cfg) \<and> v_snapshot_id inst = EXCLUDE_SNAPSHOT_ID cfg))
   \<and> (listInstances env cfg s = (Inr l, s') \<and> x \<in> set l \<longrightarrow>
        EXCLUDE_INSTANCE_ID cfg \<noteq> Some (v_id x) \<and>
        \<not> (truthy (EXCLUDE_SNAPSHOT_ID cfg) \<and> v_snapshot_id x = EXCLUDE_SNAPSHOT_ID cfg) \<and>
        (truthy (auto_detected env cfg (snd (perform ListInstances (vultr_listInstances env) s))) \<longrightarrow>
         auto_detected env cfg (snd (perform ListInstances (vultr_listInstances env) s)) \<noteq>
           Some (v_id x)))"
  using getInstance_protected [of i env s inst s1 cfg] getInstance_returned [of env cfg i s inst s']
    listInstances_returned [of env cfg s l s' x]
  by blast

theorem self_protection_witness:
  "fst (getInstance example_env example_cfg ''self-1'' (example_sys [])) = Inr None
   \<and> fst (getInstance example_env example_cfg ''snap-1'' (example_sys [])) = Inr None
   \<and> fst (getInstance example_env example_cfg ''live-1'' (example_sys [])) =
       Inr (Some (example_instance ''live-1'' ''active'' ''running'' ''198.51.100.6'' None))
   \<and> currentServerInstanceId (snd (getInstance example_env example_cfg ''live-1'' (example_sys []))) \<noteq>
       Some ''live-1''
   \<and> map_sum id (map v_id) (fst (listInstances example_env example_cfg (example_sys []))) =
       Inr [''busy-1'', ''open-1'', ''rest-1'', ''live-1'', ''good-1'']
   \<and> v_snapshot_id (example_instance ''busy-1'' ''active'' ''running'' ''198.51.100.2'' None) \<noteq>
       EXCLUDE_SNAPSHOT_ID example_cfg"
proof -
  let ?s1 = "(example_sys [])\<lparr>world := \<lparr>time = 1000, lookups = 1\<rparr>, trace := [GetInstance ''self-1'']\<rparr>"
  let ?s2 = "(example_sys [])\<lparr>world := \<lparr>time = 1000, lookups = 1\<rparr>, trace := [GetInstance ''snap-1'']\<rparr>"
  let ?live = "example_instance ''live-1'' ''active'' ''running'' ''198.51.100.6'' None"
  let ?busy = "example_instance ''busy-1'' ''active'' ''running'' ''198.51.100.2'' None"
  let ?s3 = "snd (getInstance example_env example_cfg ''live-1'' (example_sys []))"
  let ?l = "[?busy, example_instance ''open-1'' ''pending'' ''stopped'' ''0.0.0.0'' None,
      example_instance ''rest-1'' ''active'' ''stopped'' ''0.0.0.0'' None, ?live,
      (example_instance ''good-1'' ''pending'' ''stopped'' ''0.0.0.0'' None)
        \<lparr>v_firewall_group_id := Some example_firewall_id\<rparr>]"
  let ?s4 = "snd (listInstances example_env example_cfg (example_sys []))"
  note ev = getInstance_def listInstances_def isCurrentServer_def getCurrentServerInstanceId_def
    auto_detected_def perform_def example_env_def example_getInstance_def example_instances_def
    example_cfg_def example_instance_def example_sys_def truthy_def trim_example
  have a: "perform (GetInstance ''self-1'') (vultr_getInstance example_env ''self-1'') (example_sys []) =
      (Inr (Some (example_instance ''self-1'' ''active'' ''running'' ''198.51.100.1'' None)), ?s1)
      \<and> (auto_detected example_env example_cfg ?s1 = Some ''self-1'' \<or>
          EXCLUDE_INSTANCE_ID example_cfg = Some ''self-1'' \<or>
          truthy (EXCLUDE_SNAPSHOT_ID example_cfg) \<and>
          v_snapshot_id (example_instance ''self-1'' ''active'' ''running'' ''198.51.100.1'' None) =
            EXCLUDE_SNAPSHOT_ID example_cfg)"
    by (simp add: ev)
  have b: "perform (GetInstance ''snap-1'') (vultr_getInstance example_env ''snap-1'') (example_sys []) =
      (Inr (Some (example_instance ''snap-1'' ''active'' ''running'' ''198.51.100.4'' (Some ''host-image''))), ?s2)
      \<and> (auto_detected example_env example_cfg ?s2 = Some ''snap-1'' \<or>
          EXCLUDE_INSTANCE_ID example_cfg = Some ''snap-1'' \<or>
          truthy (EXCLUDE_SNAPSHOT_ID example_cfg) \<and>
          v_snapshot_id (example_instance ''snap-1'' ''active'' ''running'' ''198.51.100.4'' (Some ''host-image'')) =
            EXCLUDE_SNAPSHOT_ID example_cfg)"
    by (simp add: ev)
  have c: "getInstance example_env example_cfg ''live-1'' (example_sys []) = (Inr (Some ?live), ?s3)"
    by (simp add: ev)
  have d: "listInstances example_env example_cfg (example_sys []) = (Inr ?l, ?s4) \<and> ?busy \<in> set ?l"
    by (simp add: ev)
  note 1 = self_protection [where env = example_env and cfg = example_cfg and i = "''self-1''"
      and s = "example_sys []" and ?s1.0 = ?s1
      and inst = "example_instance ''self-1'' ''active'' ''running'' ''198.51.100.1'' None",
      THEN conjunct1, THEN mp, OF a]
  note 2 = self_protection [where env = example_env and cfg = example_cfg and i = "''snap-1''"
      and s = "example_sys []" and ?s1.0 = ?s2
      and inst = "example_instance ''snap-1'' ''active'' ''running'' ''198.51.100.4'' (Some ''host-image'')",
      THEN conjunct1, THEN mp, OF b]
  note 3 = self_protection [where env = example_env and cfg = example_cfg and i = "''live-1''"
      and s = "example_sys []" and s' = ?s3 and inst = ?live,
      THEN conjunct2, THEN conjunct1, THEN mp, OF c, THEN conjunct1]
  from self_protection [where env = example_env and cfg = example_cfg
      and s = "example_sys []" and s' = ?s4 and l = ?l and x = ?busy,
      THEN conjunct2, THEN conjunct2, THEN mp, OF d]
  have 4: "v_snapshot_id ?busy \<noteq> EXCLUDE_SNAPSHOT_ID example_cfg"
    by (simp add: example_cfg_def truthy_def)
  from d have "fst (listInstances example_env example_cfg (example_sys [])) = Inr ?l"
    by (metis fst_conv)
  then have 5: "map_sum id (map v_id) (fst (listInstances example_env example_cfg (example_sys []))) =
       Inr [''busy-1'', ''open-1'', ''rest-1'', ''live-1'', ''good-1'']"
    by (simp add: example_instance_def)
  from c have 6: "fst (getInstance example_env example_cfg ''live-1'' (example_sys [])) = Inr (Some ?live)"
    by (metis fst_conv)
  from 1 2 3 4 5 6 show ?thesis by blast
qed

section \<open>Properties of the status reconciliation poller\<close>













section \<open>Properties of the destruction reconciliation poller\<close>









section \<open>Properties of the self-destruct timer engine\<close>

lemma send_self_destructed_dm_frame:
  "instanceState (send_self_destructed_dm env u s) = instanceState s"
  by (simp add: send_self_destructed_dm_def perform_def split: prod.splits sum.splits)

lemma expired_unfold:
  assumes "selfDestructTimer r = Some timer" and "expiresAt timer \<le> clock env (world s)"
  shows "checkTimers_instance env cfg r s =
     (case getInstance env cfg (rid r) s of
        (Inl destroyError, s1) \<Rightarrow> s1
      | (Inr None, s1) \<Rightarrow> mark_destroyed env (rid r) s1
      | (Inr (Some vultrInstance), s1) \<Rightarrow>
          (case perform (DeleteInstance (rid r)) (vultr_deleteInstance env (rid r)) s1 of
             (Inl destroyError, s2) \<Rightarrow> s2
           | (Inr u, s2) \<Rightarrow>
               (let s3 = mark_destroyed env (rid r) s2;
                    s4 = send_self_destructed_dm env (creator_id (creator r)) s3
                in s4\<lparr>trace := trace s4 @ [SchedulePanelUpdate 2000]\<rparr>)))"
  using assms by (simp add: checkTimers_instance_def Let_def)


lemma sendSelfDestructWarning_frame:
  "instanceState (sendSelfDestructWarning env i m u s) = instanceState s"
  "\<exists>evs. trace (sendSelfDestructWarning env i m u s) = trace s @ evs \<and>
         set evs \<subseteq> {UsersFetch u, UserSend u (self_destruct_warning m)}"
  by (auto simp: sendSelfDestructWarning_def perform_def
      split: prod.splits sum.splits option.splits)



lemma checkTimers_instance_registry:
  "instanceState (checkTimers_instance env cfg t x) = instanceState x \<or>
   (\<exists>now st md. instanceState (checkTimers_instance env cfg t x) =
        snd (updateInstance (instanceState x) now (rid t) st md))"
proof (cases "selfDestructTimer t")
  case None
  then show ?thesis by (simp add: checkTimers_instance_def)
next
  case (Some timer)
  show ?thesis
  proof (cases "expiresAt timer \<le> clock env (world x)")
    case True
    obtain found s1 where g: "getInstance env cfg (rid t) x = (found, s1)" by fastforce
    obtain deleted s2 where
      d: "perform (DeleteInstance (rid t)) (vultr_deleteInstance env (rid t)) s1 = (deleted, s2)"
      by fastforce
    from getInstance_frame(2) [OF g] perform_frame(2) [OF d]
    have f: "instanceState s1 = instanceState x" "instanceState s2 = instanceState x" by simp_all
    have m: "\<exists>now st md. instanceState (mark_destroyed env (rid t) y) =
        snd (updateInstance (instanceState x) now (rid t) st md)"
      if "instanceState y = instanceState x" for y
      using that by (auto simp: mark_destroyed_def)
    from f m [of s1] m [of s2] show ?thesis
      by (cases found; cases deleted)
         (auto simp: expired_unfold [OF Some True] g d Let_def send_self_destructed_dm_frame
            split: option.splits)
  next
    case False
    have w: "\<exists>now st md. instanceState (y\<lparr>instanceState :=
              snd (updateInstance (instanceState y) now0 (rid t) st0 md0)\<rparr>) =
        snd (updateInstance (instanceState x) now (rid t) st md)"
      if "instanceState y = instanceState x" for y :: "'a sys" and now0 st0 md0
      using that by auto
    from False Some w [OF sendSelfDestructWarning_frame(1)] show ?thesis
      by (simp add: checkTimers_instance_def Let_def)
  qed
qed





lemma checkTimers_ids:
  "map rid (instanceState (checkTimers env cfg s)) = map rid (instanceState s)"
proof -
  have step: "map rid (instanceState (checkTimers_instance env cfg t x)) = map rid (instanceState x)"
    for t and x :: "'a sys"
    using checkTimers_instance_registry [of env cfg t x] by (auto simp: updateInstance_ids)
  have "map rid (instanceState (fold (checkTimers_instance env cfg) ts x)) = map rid (instanceState x)"
    for ts and x :: "'a sys"
    by (induction ts arbitrary: x) (simp_all add: step)
  then show ?thesis by (simp add: checkTimers_def)
qed








section \<open>Properties of the provisioning pipeline\<close>

declare attach_firewall.simps [simp del]

lemma sleep_trace: "trace (sleep env d s) = trace s @ [Wait d]"
  by (simp add: sleep_def)

lemma replicate_attempts:
  "k < maxRetries \<Longrightarrow> replicate (maxRetries - k) x = x # replicate (maxRetries - (k + 1)) x"
  by (cases "maxRetries - k") auto

lemma attach_firewall_events:
  "attach_firewall env fw i k s = (b, s') \<Longrightarrow>
     \<exists>evs. trace s' = trace s @ evs \<and> filter is_delete evs = [] \<and>
       (\<not> b \<longrightarrow> filter is_update evs = replicate (maxRetries - k) (UpdateInstance i fw))"
proof (induction env fw i k s arbitrary: b s' rule: attach_firewall.induct)
  case (1 env fw i k s)
  show ?case
  proof (cases "k < maxRetries")
    case False
    with "1.prems" have "b = False \<and> s' = s" by (simp add: attach_firewall.simps)
    with False show ?thesis by simp
  next
    case True
    obtain u s1 where p: "perform (UpdateInstance i fw) (vultr_updateInstance env i fw) s = (u, s1)"
      by fastforce
    note t1 = perform_frame(1) [OF p]
    show ?thesis
    proof (cases u)
      case (Inl a)
      let ?x = "if k + 1 < maxRetries then sleep env 10000 s1 else s1"
      from "1.prems" True p Inl have r: "attach_firewall env fw i (k + 1) ?x = (b, s')"
        by (subst (asm) attach_firewall.simps) simp
      from "1.IH"(1) [OF True p [symmetric] Inl r] obtain evs where
        e: "trace s' = trace ?x @ evs" "filter is_delete evs = []"
          "\<not> b \<longrightarrow> filter is_update evs = replicate (maxRetries - (k + 1)) (UpdateInstance i fw)"
        by blast
      have x: "trace ?x = trace s @ UpdateInstance i fw # (if k + 1 < maxRetries then [Wait 10000] else [])"
        using t1 by (simp add: sleep_trace)
      from e x True show ?thesis
        by (intro exI [of _ "UpdateInstance i fw # (if k + 1 < maxRetries then [Wait 10000] else []) @ evs"])
          (auto simp: replicate_attempts)
    next
      case (Inr ok)
      obtain g s2 where q: "perform (GetInstance i) (vultr_getInstance env i) (sleep env 3000 s1) = (g, s2)"
        by fastforce
      from perform_frame(1) [OF q] t1
      have t2: "trace s2 = trace s @ [UpdateInstance i fw, Wait 3000, GetInstance i]"
        by (simp add: sleep_trace)
      show ?thesis
      proof (cases g)
        case (Inl a)
        let ?x = "if k + 1 < maxRetries then sleep env 10000 s2 else s2"
        from "1.prems" True p Inr q Inl have r: "attach_firewall env fw i (k + 1) ?x = (b, s')"
          by (subst (asm) attach_firewall.simps) simp
        from "1.IH"(2) [OF True p [symmetric] Inr q [symmetric] Inl r] obtain evs where
          e: "trace s' = trace ?x @ evs" "filter is_delete evs = []"
            "\<not> b \<longrightarrow> filter is_update evs = replicate (maxRetries - (k + 1)) (UpdateInstance i fw)"
          by blast
        have x: "trace ?x = trace s @ [UpdateInstance i fw, Wait 3000, GetInstance i] @
            (if k + 1 < maxRetries then [Wait 10000] else [])"
          using t2 by (simp add: sleep_trace)
        from e x True show ?thesis
          by (intro exI [of _ "[UpdateInstance i fw, Wait 3000, GetInstance i] @
            (if k + 1 < maxRetries then [Wait 10000] else []) @ evs"]) (auto simp: replicate_attempts)
      next
        case (Inr verifyInstance)
        show ?thesis
        proof (cases "(case verifyInstance of None \<Rightarrow> None | Some x \<Rightarrow> v_firewall_group_id x) = Some fw")
          case v: True
          with "1.prems" True p \<open>u = Inr ok\<close> q Inr have "b = True \<and> s' = s2"
            by (subst (asm) attach_firewall.simps) simp
          with t2 show ?thesis by auto
        next
          case v: False
          from "1.prems" True p \<open>u = Inr ok\<close> q Inr v
          have r: "attach_firewall env fw i (k + 1) (sleep env 5000 s2) = (b, s')"
            by (subst (asm) attach_firewall.simps) simp
          from "1.IH"(3) [OF True p [symmetric] \<open>u = Inr ok\<close> q [symmetric] Inr v r] obtain evs where
            e: "trace s' = trace (sleep env 5000 s2) @ evs" "filter is_delete evs = []"
              "\<not> b \<longrightarrow> filter is_update evs = replicate (maxRetries - (k + 1)) (UpdateInstance i fw)"
            by blast
          from e t2 True show ?thesis
            by (intro exI [of _ "[UpdateInstance i fw, Wait 3000, GetInstance i, Wait 5000] @ evs"])
              (auto simp: sleep_trace replicate_attempts)
        qed
      qed
    qed
  qed
qed

lemma getSnapshots_frame:
  assumes "getSnapshots env s = (r, s')"
  shows "trace s' = trace s @ [ListSnapshots]"
proof -
  obtain a s1 where p: "perform ListSnapshots (vultr_listSnapshots env) s = (a, s1)" by fastforce
  with assms have "s' = s1" by (auto simp: getSnapshots_def split: sum.splits)
  with perform_frame(1) [OF p] show ?thesis by simp
qed

lemma create_phase_events:
  assumes "create_phase env cfg snapshotId label region s = (Inr (fw, inst), s')"
  shows "\<exists>rgn plan. trace s' = trace s @ [ListSnapshots, CreateInstance snapshotId label rgn plan]"
    and "VULTR_FIREWALL_GROUP_ID cfg = Some fw" and "v_id inst \<noteq> []"
proof -
  have "VULTR_FIREWALL_GROUP_ID cfg \<noteq> None"
  proof
    assume n: "VULTR_FIREWALL_GROUP_ID cfg = None"
    from assms show False by (simp only: create_phase_def n option.case) simp
  qed
  then obtain f where f: "VULTR_FIREWALL_GROUP_ID cfg = Some f" by blast
  obtain a s1 where g: "getSnapshots env s = (a, s1)" by fastforce
  let ?rgn = "js_or region (js_or (VULTR_REGION cfg) ''dfw'')"
  let ?plan = "js_or (VULTR_PLAN cfg) ''vc2-1c-1gb''"
  obtain c s2 where c: "perform (CreateInstance snapshotId label ?rgn ?plan)
        (vultr_createInstance env snapshotId label ?rgn ?plan) s1 = (c, s2)" by fastforce
  from assms have 1: "\<exists>snapshots. a = Inr snapshots \<and>
    (case c of
        Inl apiError \<Rightarrow> (Inl (create_api_error snapshotId ?rgn apiError), s2)
      | Inr EmptyResponse \<Rightarrow> (case diagnose_empty_response env s2 of (e, s3) \<Rightarrow> (Inl e, s3))
      | Inr (ResponseWithoutInstance json) \<Rightarrow>
          (Inl (new_Error (''Invalid API response: expected response.instance '' @
                              ''but got: '' @ json)), s2)
      | Inr (ResponseWithInstance instance json) \<Rightarrow>
          if v_id instance = [] then
            (Inl (new_Error (''Instance created but missing ID in response: '' @ json)), s2)
          else (Inr (f, instance), s2)) = (Inr (fw, inst), s')"
    apply (simp only: create_phase_def f option.case g prod.case Let_def c)
    apply (simp only: split: if_splits sum.splits)
      apply simp_all
    done
  then have fin: "s' = s2 \<and> v_id inst \<noteq> [] \<and> f = fw"
    by (auto split: sum.splits create_response.splits prod.splits if_splits)
  with f show "VULTR_FIREWALL_GROUP_ID cfg = Some fw" by simp
  from fin show "v_id inst \<noteq> []" by simp
  from fin getSnapshots_frame [OF g] perform_frame(1) [OF c]
  show "\<exists>rgn plan. trace s' = trace s @ [ListSnapshots, CreateInstance snapshotId label rgn plan]"
    by auto
qed


lemma security_failure_wrapped:
  "\<not> (str_includes (message security_failure) ''VULTR_FIREWALL_GROUP_ID'' \<or>
       str_includes (message security_failure) ''Invalid'' \<or>
       str_includes (message security_failure) ''Vultr API'' \<or>
       str_includes (message security_failure) ''Failed to attach'' \<or>
       str_includes (message security_failure) ''Snapshot'')"
  by (simp add: security_failure_def new_Error_def maxRetries_def digit_char_def)

lemma security_failure_text:
  "message security_failure =
   ''SECURITY FAILURE: Firewall could not be attached after 10 attempts. Instance was destroyed for security. Please try again.''"
  by (simp add: security_failure_def new_Error_def maxRetries_def digit_char_def)

lemma attach_firewall_verified:
  "attach_firewall env fw i k s = (True, s') \<Longrightarrow>
     \<exists>s0 v. perform (GetInstance i) (vultr_getInstance env i) s0 = (Inr (Some v), s') \<and>
            v_firewall_group_id v = Some fw"
proof (induction env fw i k s arbitrary: s' rule: attach_firewall.induct)
  case (1 env fw i k s)
  show ?case
  proof (cases "k < maxRetries")
    case False
    with "1.prems" show ?thesis by (simp add: attach_firewall.simps)
  next
    case True
    obtain u s1 where p: "perform (UpdateInstance i fw) (vultr_updateInstance env i fw) s = (u, s1)"
      by fastforce
    show ?thesis
    proof (cases u)
      case (Inl a)
      let ?x = "if k + 1 < maxRetries then sleep env 10000 s1 else s1"
      from "1.prems" True p Inl have r: "attach_firewall env fw i (k + 1) ?x = (True, s')"
        by (subst (asm) attach_firewall.simps) simp
      from "1.IH"(1) [OF True p [symmetric] Inl r] show ?thesis .
    next
      case (Inr ok)
      obtain g s2 where q: "perform (GetInstance i) (vultr_getInstance env i) (sleep env 3000 s1) = (g, s2)"
        by fastforce
      show ?thesis
      proof (cases g)
        case (Inl a)
        let ?x = "if k + 1 < maxRetries then sleep env 10000 s2 else s2"
        from "1.prems" True p Inr q Inl have r: "attach_firewall env fw i (k + 1) ?x = (True, s')"
          by (subst (asm) attach_firewall.simps) simp
        from "1.IH"(2) [OF True p [symmetric] Inr q [symmetric] Inl r] show ?thesis .
      next
        case (Inr verifyInstance)
        show ?thesis
        proof (cases "(case verifyInstance of None \<Rightarrow> None | Some x \<Rightarrow> v_firewall_group_id x) = Some fw")
          case v: True
          with "1.prems" True p \<open>u = Inr ok\<close> q Inr have s': "s' = s2"
            by (subst (asm) attach_firewall.simps) simp
          from v obtain x where "verifyInstance = Some x" "v_firewall_group_id x = Some fw"
            by (cases verifyInstance) auto
          with q Inr s' show ?thesis by blast
        next
          case v: False
          from "1.prems" True p \<open>u = Inr ok\<close> q Inr v
          have r: "attach_firewall env fw i (k + 1) (sleep env 5000 s2) = (True, s')"
            by (subst (asm) attach_firewall.simps) simp
          from "1.IH"(3) [OF True p [symmetric] \<open>u = Inr ok\<close> q [symmetric] Inr v r] show ?thesis .
        qed
      qed
    qed
  qed
qed

lemma provision_returned:
  assumes "createInstanceFromSnapshot env cfg snapshotId label region s = (Inr inst, s')"
  shows "\<exists>fw s1 s2. create_phase env cfg snapshotId label region s = (Inr (fw, inst), s1) \<and>
           attach_firewall env fw (v_id inst) 0 s1 = (True, s2)"
proof -
  obtain c s1 where c: "create_phase env cfg snapshotId label region s = (c, s1)" by fastforce
  from assms have t: "createInstanceFromSnapshot_try env cfg snapshotId label region s = (Inr inst, s')"
    by (auto simp: createInstanceFromSnapshot_def split: prod.splits sum.splits if_splits)
  with c obtain fw i where ci: "c = Inr (fw, i)"
    by (cases c) (auto simp: createInstanceFromSnapshot_try_def)
  obtain b s2 where a: "attach_firewall env fw (v_id i) 0 s1 = (b, s2)" by fastforce
  from t c ci a have "b \<and> i = inst"
    by (auto simp: createInstanceFromSnapshot_try_def split: prod.splits if_splits)
  with c ci a show ?thesis by auto
qed

text \<open>
  Claim C1. Take a provisioning run in which the checks and the creation succeed and the
  security attachment loop ends without a verified attachment. Then the loop has made
  exactly 10 attach attempts for the created instance; exactly one delete call is issued,
  for the id of the created instance, as the last provider call of the run, whether the
  provider accepts it or not; and the operation fails with the security failure error
  (which the outer handler wraps as "Failed to create instance: SECURITY FAILURE ..."), so
  no instance is returned. Conversely, whenever the operation returns an instance, the
  attachment loop has ended with a verified attachment: the last lookup of the loop found
  the created instance with the configured security group.
\<close>

theorem security_attachment_failed:
  "(create_phase env cfg snapshotId label region s = (Inr (fw, inst), s1) \<and>
      attach_firewall env fw (v_id inst) 0 s1 = (False, s2) \<longrightarrow>
      (\<exists>s3. createInstanceFromSnapshot env cfg snapshotId label region s =
           (Inl (new_Error ''Failed to create instance: SECURITY FAILURE: Firewall could not be attached after 10 attempts. Instance was destroyed for security. Please try again.''), s3) \<and>
         filter is_delete (new_events s s3) = [DeleteInstance (v_id inst)] \<and>
         last (new_events s s3) = DeleteInstance (v_id inst) \<and>
         filter is_update (new_events s s3) = replicate 10 (UpdateInstance (v_id inst) fw)))
   \<and> (createInstanceFromSnapshot env cfg snapshotId label region s = (Inr inst, s') \<longrightarrow>
      (\<exists>fw s1 s2 s0 v.
         VULTR_FIREWALL_GROUP_ID cfg = Some fw \<and>
         create_phase env cfg snapshotId label region s = (Inr (fw, inst), s1) \<and>
         attach_firewall env fw (v_id inst) 0 s1 = (True, s2) \<and>
         perform (GetInstance (v_id inst)) (vultr_getInstance env (v_id inst)) s0 =
           (Inr (Some v), s2) \<and>
         v_firewall_group_id v = Some fw))"
proof (rule conjI; rule impI)
  assume "create_phase env cfg snapshotId label region s = (Inr (fw, inst), s1) \<and>
      attach_firewall env fw (v_id inst) 0 s1 = (False, s2)"
  then have c: "create_phase env cfg snapshotId label region s = (Inr (fw, inst), s1)"
    and a: "attach_firewall env fw (v_id inst) 0 s1 = (False, s2)" by blast+
  obtain d s3 where d: "perform (DeleteInstance (v_id inst)) (vultr_deleteInstance env (v_id inst)) s2 = (d, s3)"
    by fastforce
  from c a d have t: "createInstanceFromSnapshot_try env cfg snapshotId label region s = (Inl security_failure, s3)"
    by (simp add: createInstanceFromSnapshot_try_def)
  have r: "createInstanceFromSnapshot env cfg snapshotId label region s =
           (Inl (new_Error ''Failed to create instance: SECURITY FAILURE: Firewall could not be attached after 10 attempts. Instance was destroyed for security. Please try again.''), s3)"
    unfolding createInstanceFromSnapshot_def t prod.case sum.case if_not_P [OF security_failure_wrapped]
    by (simp add: security_failure_text)
  from create_phase_events(1) [OF c] obtain rgn plan where
    e1: "trace s1 = trace s @ [ListSnapshots, CreateInstance snapshotId label rgn plan]" by blast
  from attach_firewall_events [OF a] obtain evs where
    e2: "trace s2 = trace s1 @ evs" "filter is_delete evs = []"
      "filter is_update evs = replicate maxRetries (UpdateInstance (v_id inst) fw)"
    by auto
  from e1 e2 perform_frame(1) [OF d]
  have n: "new_events s s3 =
      [ListSnapshots, CreateInstance snapshotId label rgn plan] @ evs @ [DeleteInstance (v_id inst)]"
    by (simp add: new_events_append)
  from r e2 n show "\<exists>s3. createInstanceFromSnapshot env cfg snapshotId label region s =
           (Inl (new_Error ''Failed to create instance: SECURITY FAILURE: Firewall could not be attached after 10 attempts. Instance was destroyed for security. Please try again.''), s3) \<and>
         filter is_delete (new_events s s3) = [DeleteInstance (v_id inst)] \<and>
         last (new_events s s3) = DeleteInstance (v_id inst) \<and>
         filter is_update (new_events s s3) = replicate 10 (UpdateInstance (v_id inst) fw)"
    by (intro exI [of _ s3]) (simp add: maxRetries_def)
next
  assume "createInstanceFromSnapshot env cfg snapshotId label region s = (Inr inst, s')"
  from provision_returned [OF this] obtain fw s1 s2 where
    c: "create_phase env cfg snapshotId label region s = (Inr (fw, inst), s1)" and
    a: "attach_firewall env fw (v_id inst) 0 s1 = (True, s2)" by blast
  from attach_firewall_verified [OF a] create_phase_events(2) [OF c] c a
  show "\<exists>fw s1 s2 s0 v.
         VULTR_FIREWALL_GROUP_ID cfg = Some fw \<and>
         create_phase env cfg snapshotId label region s = (Inr (fw, inst), s1) \<and>
         attach_firewall env fw (v_id inst) 0 s1 = (True, s2) \<and>
         perform (GetInstance (v_id inst)) (vultr_getInstance env (v_id inst)) s0 =
           (Inr (Some v), s2) \<and>
         v_firewall_group_id v = Some fw"
    by blast
qed

theorem security_attachment_failed_witness:
  "fst (createInstanceFromSnapshot example_env example_cfg example_snapshot_id ''Test''
          (Some ''dfw'') (example_sys [])) =
     Inl (new_Error ''Failed to create instance: SECURITY FAILURE: Firewall could not be attached after 10 attempts. Instance was destroyed for security. Please try again.'')
   \<and> filter is_delete (new_events (example_sys [])
         (snd (createInstanceFromSnapshot example_env example_cfg example_snapshot_id ''Test''
                (Some ''dfw'') (example_sys [])))) = [DeleteInstance ''open-1'']
   \<and> fst (createInstanceFromSnapshot example_env example_cfg example_snapshot_id ''Arena''
          (Some ''dfw'') (example_sys [])) =
     Inr (example_instance ''good-1'' ''pending'' ''stopped'' ''0.0.0.0'' (Some example_snapshot_id))
   \<and> VULTR_FIREWALL_GROUP_ID example_cfg = Some example_firewall_id"
proof -
  let ?inst = "example_instance ''open-1'' ''pending'' ''stopped'' ''0.0.0.0'' (Some example_snapshot_id)"
  let ?good = "example_instance ''good-1'' ''pending'' ''stopped'' ''0.0.0.0'' (Some example_snapshot_id)"
  let ?s1 = "(example_sys [])\<lparr>trace :=
      [ListSnapshots, CreateInstance example_snapshot_id ''Test'' ''dfw'' ''vc2-1c-1gb'']\<rparr>"
  let ?run = "createInstanceFromSnapshot example_env example_cfg example_snapshot_id ''Arena''
          (Some ''dfw'') (example_sys [])"
  note ev = perform_def sleep_def example_env_def example_getInstance_def
    example_deleteInstance_def example_instances_def example_cfg_def example_instance_def
    example_sys_def
  have u: "uuidRegex_test example_firewall_id" "uuidRegex_test example_snapshot_id"
    by (simp_all add: uuidRegex_test_def is_hex_digit_def example_firewall_id_def
        example_snapshot_id_def upt_rec)
  have n: "example_firewall_id \<noteq> []" "example_snapshot_id \<noteq> []"
    by (simp_all add: example_firewall_id_def example_snapshot_id_def)
  have c: "create_phase example_env example_cfg example_snapshot_id ''Test'' (Some ''dfw'')
      (example_sys []) = (Inr (example_firewall_id, ?inst), ?s1)"
    using u n by (simp add: create_phase_def getSnapshots_def js_or_def Let_def ev)
  have "fst (attach_firewall example_env example_firewall_id (v_id ?inst) 0 ?s1) = False"
    using n by (simp add: attach_firewall.simps maxRetries_def ev)
  then have a: "attach_firewall example_env example_firewall_id (v_id ?inst) 0 ?s1 =
      (False, snd (attach_firewall example_env example_firewall_id (v_id ?inst) 0 ?s1))"
    by (simp add: prod_eq_iff)
  from c a have h: "create_phase example_env example_cfg example_snapshot_id ''Test'' (Some ''dfw'')
      (example_sys []) = (Inr (example_firewall_id, ?inst), ?s1) \<and>
    attach_firewall example_env example_firewall_id (v_id ?inst) 0 ?s1 =
      (False, snd (attach_firewall example_env example_firewall_id (v_id ?inst) 0 ?s1))"
    by (rule conjI)
  from security_attachment_failed [THEN conjunct1, THEN mp, OF h] obtain s3 where
    "createInstanceFromSnapshot example_env example_cfg example_snapshot_id ''Test''
        (Some ''dfw'') (example_sys []) =
      (Inl (new_Error ''Failed to create instance: SECURITY FAILURE: Firewall could not be attached after 10 attempts. Instance was destroyed for security. Please try again.''), s3)"
    and "filter is_delete (new_events (example_sys []) s3) = [DeleteInstance (v_id ?inst)]"
    by blast
  then have 1: "fst (createInstanceFromSnapshot example_env example_cfg example_snapshot_id ''Test''
          (Some ''dfw'') (example_sys [])) =
     Inl (new_Error ''Failed to create instance: SECURITY FAILURE: Firewall could not be attached after 10 attempts. Instance was destroyed for security. Please try again.'')
   \<and> filter is_delete (new_events (example_sys [])
         (snd (createInstanceFromSnapshot example_env example_cfg example_snapshot_id ''Test''
                (Some ''dfw'') (example_sys [])))) = [DeleteInstance ''open-1'']"
    by (simp add: example_instance_def)
  have "fst ?run = Inr ?good"
    using u n
    by (simp add: createInstanceFromSnapshot_def createInstanceFromSnapshot_try_def
        create_phase_def getSnapshots_def enable_ddos_def js_or_def Let_def
        attach_firewall.simps maxRetries_def ev)
  then have g: "?run = (Inr ?good, snd ?run)" by (simp add: prod_eq_iff)
  from security_attachment_failed [THEN conjunct2, THEN mp, OF g]
  have 2: "VULTR_FIREWALL_GROUP_ID example_cfg = Some example_firewall_id"
    by (auto simp: example_cfg_def)
  from 1 2 \<open>fst ?run = Inr ?good\<close> show ?thesis by blast
qed

end
